theory Spec2Isabelle
  imports Complex_Main
begin

section \<open>Errors raised by the services\<close>

text \<open>
  The classes of \<^verbatim>\<open>services/errorHandler.ts\<close>: \<^verbatim>\<open>AssessmentError\<close> and its
  subclasses, next to the plain \<^verbatim>\<open>Error\<close> (and the runtime's \<^verbatim>\<open>TypeError\<close>,
  \<^verbatim>\<open>SyntaxError\<close>) that the other services throw. An error value is its class and
  its message.
\<close>

datatype error_class =
    PlainError | TypeError | SyntaxError
  | AssessmentError | ValidationError | AuthenticationError | AuthorizationError
  | NotFoundError | RateLimitError | ExternalServiceError | DatabaseError
  | ConfigurationError

datatype js_error = JsError error_class string

fun class_of :: "js_error \<Rightarrow> error_class" where
  "class_of (JsError c m) = c"

section \<open>RetryHandler.withRetry\<close>

text \<open>
  \<^verbatim>\<open>error instanceof ValidationError || error instanceof AuthenticationError ||
  error instanceof AuthorizationError\<close>: none of the three classes has a subclass.
\<close>

definition nonRetryable :: "js_error \<Rightarrow> bool" where
  "nonRetryable error \<longleftrightarrow>
     class_of error = ValidationError \<or> class_of error = AuthenticationError
       \<or> class_of error = AuthorizationError"

text \<open>
  What one run of \<^verbatim>\<open>withRetry\<close> does: the value it returns or the value it throws
  (\<open>Inl None\<close> is \<^verbatim>\<open>throw undefined\<close>, the unassigned \<^verbatim>\<open>lastError\<close>), how often it
  invoked the operation, and the delays it slept, in order.
\<close>

record 'a retry_run =
  outcome :: "js_error option + 'a"
  calls :: nat
  delays :: "rat list"

text \<open>
  The operation is an effectful thunk; \<open>operation k\<close> is what its \<open>k\<close>-th invocation
  (counted from 0) does. The \<^verbatim>\<open>for\<close> loop of \<^verbatim>\<open>withRetry\<close> invokes it once per
  iteration, so the loop counter \<^verbatim>\<open>attempt\<close> is also the invocation index. Delays are
  exact rationals (milliseconds); \<^verbatim>\<open>Math.pow\<close> is the power.
\<close>

function withRetry_loop ::
  "(nat \<Rightarrow> js_error + 'a) \<Rightarrow> int \<Rightarrow> rat \<Rightarrow> rat \<Rightarrow> nat \<Rightarrow> js_error option \<Rightarrow> rat list
     \<Rightarrow> 'a retry_run" where
  "withRetry_loop operation maxRetries delayMs backoffMultiplier attempt lastError slept =
     (if int attempt < maxRetries then
        (case operation attempt of
           Inr v \<Rightarrow> \<lparr>outcome = Inr v, calls = attempt + 1, delays = slept\<rparr>
         | Inl error \<Rightarrow>
             if int attempt = maxRetries - 1 then
               \<lparr>outcome = Inl (Some error), calls = attempt + 1, delays = slept\<rparr>
             else if nonRetryable error then
               \<lparr>outcome = Inl (Some error), calls = attempt + 1, delays = slept\<rparr>
             else
               withRetry_loop operation maxRetries delayMs backoffMultiplier (attempt + 1)
                 (Some error) (slept @ [delayMs * backoffMultiplier ^ attempt]))
      else \<lparr>outcome = Inl lastError, calls = attempt, delays = slept\<rparr>)"
  by pat_completeness auto
termination
  by (relation "measure (\<lambda>(operation, maxRetries, delayMs, backoffMultiplier, attempt, lastError, slept).
        nat (maxRetries - int attempt))") auto

declare withRetry_loop.simps [simp del]

definition withRetry ::
  "(nat \<Rightarrow> js_error + 'a) \<Rightarrow> int \<Rightarrow> rat \<Rightarrow> rat \<Rightarrow> 'a retry_run" where
  "withRetry operation maxRetries delayMs backoffMultiplier =
     withRetry_loop operation maxRetries delayMs backoffMultiplier 0 None []"

text \<open>The operation fails on every invocation with an error that is retried.\<close>

definition alwaysFailsRetryable :: "(nat \<Rightarrow> js_error + 'a) \<Rightarrow> bool" where
  "alwaysFailsRetryable operation \<longleftrightarrow>
     (\<forall>k. \<exists>e. operation k = Inl e \<and> \<not> nonRetryable e)"

text \<open>The error of the \<open>k\<close>-th invocation, when it fails.\<close>

definition errorAt :: "(nat \<Rightarrow> js_error + 'a) \<Rightarrow> nat \<Rightarrow> js_error option" where
  "errorAt operation k = (case operation k of Inl e \<Rightarrow> Some e | Inr v \<Rightarrow> None)"

section \<open>CircuitBreaker.execute\<close>

datatype circuit = Closed | Open | HalfOpen

record circuit_state =
  state :: circuit
  failureCount :: int
  lastFailureTime :: int
  successCount :: int

record breaker_options =
  failureThreshold :: int
  recoveryTimeout :: int
  successThreshold :: int

definition defaultOptions :: breaker_options where
  "defaultOptions = \<lparr>failureThreshold = 5, recoveryTimeout = 60000, successThreshold = 3\<rparr>"

definition initialCircuit :: circuit_state where
  "initialCircuit = \<lparr>state = Closed, failureCount = 0, lastFailureTime = 0, successCount = 0\<rparr>"

text \<open>
  One call of \<^verbatim>\<open>CircuitBreaker.execute(key, operation, options)\<close> against the static
  map \<^verbatim>\<open>states\<close>. \<open>now\<close> is the reading of \<^verbatim>\<open>Date.now()\<close> at the open check and
  \<open>failedAt\<close> the reading in the \<^verbatim>\<open>catch\<close> block; \<open>operation\<close> is what the operation
  does if it is invoked, and \<open>invoked\<close> records whether it was. The state object taken
  from the map is mutated in place; the only path that leaves without
  \<^verbatim>\<open>states.set\<close> is the open circuit's throw, which has mutated nothing.
\<close>

record 'a breaker_run =
  result :: "js_error + 'a"
  invoked :: bool
  states :: "string \<rightharpoonup> circuit_state"

definition circuitOpenError :: js_error where
  "circuitOpenError = JsError PlainError ''Circuit breaker is open''"

definition execute ::
  "string \<Rightarrow> (js_error + 'a) \<Rightarrow> int \<Rightarrow> int \<Rightarrow> breaker_options
     \<Rightarrow> (string \<rightharpoonup> circuit_state) \<Rightarrow> 'a breaker_run" where
  "execute key operation now failedAt options sts =
     (let s0 = (case sts key of Some s \<Rightarrow> s | None \<Rightarrow> initialCircuit) in
      if state s0 = Open \<and> \<not> (now - lastFailureTime s0 > recoveryTimeout options) then
        \<lparr>result = Inl circuitOpenError, invoked = False, states = sts\<rparr>
      else
        let s1 = (if state s0 = Open then s0\<lparr>state := HalfOpen, successCount := 0\<rparr> else s0) in
        (case operation of
           Inr v \<Rightarrow>
             let s2 = s1\<lparr>failureCount := 0, successCount := successCount s1 + 1\<rparr>;
                 s3 = (if state s2 = HalfOpen \<and> successCount s2 \<ge> successThreshold options
                       then s2\<lparr>state := Closed\<rparr> else s2)
             in \<lparr>result = Inr v, invoked = True, states = sts(key \<mapsto> s3)\<rparr>
         | Inl error \<Rightarrow>
             let s2 = s1\<lparr>failureCount := failureCount s1 + 1, lastFailureTime := failedAt\<rparr>;
                 s3 = (if failureCount s2 \<ge> failureThreshold options
                       then s2\<lparr>state := Open\<rparr> else s2)
             in \<lparr>result = Inl error, invoked = True, states = sts(key \<mapsto> s3)\<rparr>))"

text \<open>
  A sequence of calls on one key: each call is the clock reading at entry, what the
  operation would do, and the clock reading in the \<^verbatim>\<open>catch\<close> block.
\<close>

fun executeAll ::
  "string \<Rightarrow> breaker_options \<Rightarrow> (int \<times> (js_error + 'a) \<times> int) list
     \<Rightarrow> (string \<rightharpoonup> circuit_state) \<Rightarrow> (string \<rightharpoonup> circuit_state)" where
  "executeAll key options [] sts = sts"
| "executeAll key options ((now, operation, failedAt) # rest) sts =
     executeAll key options rest (states (execute key operation now failedAt options sts))"

text \<open>The circuit of a key, as \<^verbatim>\<open>execute\<close> reads it.\<close>

definition circuitOf :: "(string \<rightharpoonup> circuit_state) \<Rightarrow> string \<Rightarrow> circuit_state" where
  "circuitOf sts key = (case sts key of Some s \<Rightarrow> s | None \<Rightarrow> initialCircuit)"

text \<open>
  Every call of the sequence invoked the operation and the operation failed; every
  operation of the sequence succeeds.
\<close>

fun invokedFailures ::
  "string \<Rightarrow> breaker_options \<Rightarrow> (int \<times> (js_error + 'a) \<times> int) list
     \<Rightarrow> (string \<rightharpoonup> circuit_state) \<Rightarrow> bool" where
  "invokedFailures key options [] sts = True"
| "invokedFailures key options ((now, operation, failedAt) # rest) sts =
     (isl operation \<and> invoked (execute key operation now failedAt options sts)
      \<and> invokedFailures key options rest (states (execute key operation now failedAt options sts)))"

definition allSucceed :: "(int \<times> (js_error + 'a) \<times> int) list \<Rightarrow> bool" where
  "allSucceed cs = list_all (\<lambda>c. \<not> isl (fst (snd c))) cs"

section \<open>JavaScript values\<close>

text \<open>
  What \<^verbatim>\<open>JSON.parse\<close> returns, and \<^verbatim>\<open>undefined\<close> for a property that is not there.
  A JSON number is a decimal literal, here an exact rational; the services only compare
  numbers and take \<^verbatim>\<open>Math.min\<close>/\<^verbatim>\<open>Math.max\<close> of them. An object lists each of its
  properties once.
\<close>

datatype jsval =
    JUndefined | JNull | JBool bool | JNum rat | JStr string
  | JArr "jsval list" | JObj "(string \<times> jsval) list"

fun truthy :: "jsval \<Rightarrow> bool" where
  "truthy JUndefined = False"
| "truthy JNull = False"
| "truthy (JBool b) = b"
| "truthy (JNum q) = (q \<noteq> 0)"
| "truthy (JStr s) = (s \<noteq> [])"
| "truthy (JArr xs) = True"
| "truthy (JObj fs) = True"

text \<open>\<^verbatim>\<open>a || b\<close>\<close>

definition js_or :: "jsval \<Rightarrow> jsval \<Rightarrow> jsval" where
  "js_or a b = (if truthy a then a else b)"

text \<open>\<^verbatim>\<open>parsed.k\<close> on an object.\<close>

definition getProp :: "(string \<times> jsval) list \<Rightarrow> string \<Rightarrow> jsval" where
  "getProp fs k = (case map_of fs k of Some v \<Rightarrow> v | None \<Rightarrow> JUndefined)"

text \<open>
  \<^verbatim>\<open>v?.k\<close> for a key that no prototype defines: \<^verbatim>\<open>undefined\<close> unless \<open>v\<close> is an
  object that has the property.
\<close>

fun optProp :: "jsval \<Rightarrow> string \<Rightarrow> jsval" where
  "optProp (JObj fs) k = getProp fs k"
| "optProp v k = JUndefined"

text \<open>
  A JavaScript number is a rational or \<^verbatim>\<open>NaN\<close> (\<open>None\<close>). \<^verbatim>\<open>ToNumber\<close> is the
  coercion that \<^verbatim>\<open>Math.min\<close> and \<^verbatim>\<open>Math.max\<close> apply to their arguments; on strings,
  arrays and objects it is the runtime's string-to-number conversion, taken as the
  parameter \<open>conv\<close>.
\<close>

fun ToNumber :: "(jsval \<Rightarrow> rat option) \<Rightarrow> jsval \<Rightarrow> rat option" where
  "ToNumber conv JUndefined = None"
| "ToNumber conv JNull = Some 0"
| "ToNumber conv (JBool b) = Some (if b then 1 else 0)"
| "ToNumber conv (JNum q) = Some q"
| "ToNumber conv v = conv v"

fun Math_max :: "rat option \<Rightarrow> rat option \<Rightarrow> rat option" where
  "Math_max (Some a) (Some b) = Some (max a b)"
| "Math_max a b = None"

fun Math_min :: "rat option \<Rightarrow> rat option \<Rightarrow> rat option" where
  "Math_min (Some a) (Some b) = Some (min a b)"
| "Math_min a b = None"

section \<open>ClaudeAIService\<close>

record insight_user_info =
  company :: string
  productName :: string
  businessModel :: string

record final_user_info = insight_user_info +
  productDescription :: string

record session_user_info = final_user_info +
  email :: string

datatype response_value = RNum rat | RStr string

datatype response_type = multiple_choice | scale | text_response

record AssessmentResponse =
  questionId :: string
  questionText :: string
  response :: response_value
  responseType :: response_type
  timestamp :: int

text \<open>The insight a session stores (\<^verbatim>\<open>Insight\<close>, as the insight engine fills it).\<close>

record Insight =
  insightId :: string
  ins_sessionId :: string
  batchNumber :: nat
  questionRange :: string
  ins_insight :: jsval
  ins_challengeIdentified :: jsval
  ins_businessImpact :: jsval
  ins_confidence :: "rat option"
  generatedAt :: string

record AssessmentInsightRequest =
  req_responses :: "AssessmentResponse list"
  req_batchNumber :: nat
  req_previousInsights :: "Insight list option"
  req_userInfo :: insight_user_info

record FinalAssessmentRequest =
  fin_responses :: "AssessmentResponse list"
  fin_insights :: "Insight list"
  fin_userInfo :: final_user_info

text \<open>
  \<^verbatim>\<open>AIInsightResponse\<close>. The fields copied from the parsed payload are whatever JSON
  value the payload holds; \<open>confidence\<close> is the number that \<^verbatim>\<open>Math.min\<close> returns.
\<close>

record AIInsightResponse =
  challengeIdentified :: jsval
  insight :: jsval
  businessImpact :: jsval
  confidence :: "rat option"
  reasoning :: jsval

record SkillLevels =
  customerAnalysis :: "rat option"
  businessCommunication :: "rat option"
  revenueStrategy :: "rat option"
  valueArticulation :: "rat option"
  strategicThinking :: "rat option"

record AIAssessmentResponse =
  ai_overallScore :: "rat option"
  ai_performanceLevel :: jsval
  ai_skillLevels :: SkillLevels
  ai_challenges :: jsval
  ai_recommendations :: jsval
  ai_focusArea :: jsval
  ai_revenueOpportunity :: jsval
  ai_roiMultiplier :: "rat option"
  ai_nextSteps :: jsval
  ai_confidence :: "rat option"

text \<open>
  The text the endpoint returns, as the two parsers see it: \<^verbatim>\<open>response.match\<close> throws
  (the value is not a string), the regular expression \<^verbatim>\<open>/\{[\s\S]*\}/\<close> finds nothing,
  \<^verbatim>\<open>JSON.parse\<close> throws on the match, or it returns an object (the match starts with a
  brace, so a value that parses is an object).
\<close>

datatype ai_text = NotText | NoJson | BadJson | Parsed "(string \<times> jsval) list"

text \<open>
  What \<^verbatim>\<open>fetch\<close> and the reading of the body do: \<^verbatim>\<open>fetch\<close> rejects, the status is
  not ok (with the status line), \<^verbatim>\<open>response.json()\<close> or the read of
  \<^verbatim>\<open>result.content[0].text\<close> throws, or a text comes back.
\<close>

datatype api_reply = FetchRejected js_error | NotOk string | BodyRejected js_error | Text ai_text

text \<open>
  The environment of one call into the service: whether the key is configured, what the
  endpoint answers to the prompt, the draw of \<^verbatim>\<open>Math.random()\<close>, and the runtime's
  conversion of strings, arrays and objects to numbers. The prompt only feeds the
  endpoint, whose answer is an input here, so the prompt text is not built. The
  environment is that of a call whose awaited \<^verbatim>\<open>fetch\<close> settles; the \<^verbatim>\<open>fetch\<close> that
  never settles is added by \<open>awaited_reply\<close> below.
\<close>

record claude_env =
  isConfigured :: bool
  apiReply :: api_reply
  random :: rat
  toNumber :: "jsval \<Rightarrow> rat option"

definition callClaudeAPI :: "claude_env \<Rightarrow> js_error + ai_text" where
  "callClaudeAPI env =
     (if \<not> isConfigured env then Inl (JsError PlainError ''Anthropic API key not configured'')
      else case apiReply env of
             FetchRejected e \<Rightarrow> Inl e
           | NotOk statusLine \<Rightarrow> Inl (JsError PlainError (''Claude API error: '' @ statusLine))
           | BodyRejected e \<Rightarrow> Inl e
           | Text t \<Rightarrow> Inr t)"

text \<open>
  \<^verbatim>\<open>challenges[Math.floor(Math.random() * challenges.length)]\<close>; an index outside the
  array reads \<^verbatim>\<open>undefined\<close>.
\<close>

definition fallbackChallenges :: "string list" where
  "fallbackChallenges =
     [''Technical Translation Challenge'', ''Buyer Conversations Challenge'',
      ''Competitive Positioning Challenge'']"

definition randomChallenge :: "rat \<Rightarrow> jsval" where
  "randomChallenge r =
     (let i = \<lfloor>r * of_nat (length fallbackChallenges)\<rfloor> in
      if 0 \<le> i \<and> i < int (length fallbackChallenges)
      then JStr (fallbackChallenges ! nat i) else JUndefined)"

definition getFallbackInsight :: "rat \<Rightarrow> AssessmentInsightRequest \<Rightarrow> AIInsightResponse" where
  "getFallbackInsight r request =
     \<lparr>challengeIdentified = randomChallenge r,
      insight = JStr ''Based on your responses, you show strong technical understanding but may benefit from focusing on buyer-centric conversations to improve deal outcomes.'',
      businessImpact = JStr ''Potential revenue impact from improved sales conversations'',
      confidence = Some 70,
      reasoning = JStr ''Fallback analysis based on standard assessment patterns''\<rparr>"

definition emptyInsightRequest :: AssessmentInsightRequest where
  "emptyInsightRequest =
     \<lparr>req_responses = [], req_batchNumber = 1, req_previousInsights = None,
      req_userInfo = \<lparr>company = [], productName = [], businessModel = []\<rparr>\<rparr>"

text \<open>The \<^verbatim>\<open>try\<close> block of \<^verbatim>\<open>parseInsightResponse\<close>, and the function with its \<^verbatim>\<open>catch\<close>.\<close>

definition parseInsightResponse_try :: "claude_env \<Rightarrow> ai_text \<Rightarrow> js_error + AIInsightResponse" where
  "parseInsightResponse_try env t =
     (case t of
        NotText \<Rightarrow> Inl (JsError TypeError ''response.match is not a function'')
      | NoJson \<Rightarrow> Inl (JsError PlainError ''No JSON found in response'')
      | BadJson \<Rightarrow> Inl (JsError SyntaxError ''JSON.parse'')
      | Parsed parsed \<Rightarrow>
          if \<not> truthy (getProp parsed ''challengeIdentified'') \<or> \<not> truthy (getProp parsed ''insight'')
          then Inl (JsError PlainError ''Invalid insight response structure'')
          else Inr
            \<lparr>challengeIdentified = getProp parsed ''challengeIdentified'',
             insight = getProp parsed ''insight'',
             businessImpact = js_or (getProp parsed ''businessImpact'') (JStr ''Revenue impact''),
             confidence = Math_min (Some 95) (Math_max (Some 60)
                 (ToNumber (toNumber env) (js_or (getProp parsed ''confidence'') (JNum 75)))),
             reasoning = js_or (getProp parsed ''reasoning'')
                 (JStr ''AI analysis based on assessment responses'')\<rparr>)"

definition parseInsightResponse :: "claude_env \<Rightarrow> ai_text \<Rightarrow> AIInsightResponse" where
  "parseInsightResponse env t =
     (case parseInsightResponse_try env t of
        Inr r \<Rightarrow> r
      | Inl error \<Rightarrow> getFallbackInsight (random env) emptyInsightRequest)"

text \<open>
  \<^verbatim>\<open>generateInsight\<close>: the result is a sum so that a raise would be a value \<open>Inl\<close>; the
  \<^verbatim>\<open>try\<close> block is the call of the endpoint followed by the parse.
\<close>

definition generateInsight_try :: "claude_env \<Rightarrow> AssessmentInsightRequest \<Rightarrow> js_error + AIInsightResponse" where
  "generateInsight_try env request =
     (case callClaudeAPI env of
        Inl e \<Rightarrow> Inl e
      | Inr aiResponse \<Rightarrow> Inr (parseInsightResponse env aiResponse))"

definition generateInsight :: "claude_env \<Rightarrow> AssessmentInsightRequest \<Rightarrow> js_error + AIInsightResponse" where
  "generateInsight env request =
     (if \<not> isConfigured env then Inr (getFallbackInsight (random env) request)
      else case generateInsight_try env request of
             Inr aiInsight \<Rightarrow> Inr aiInsight
           | Inl error \<Rightarrow> Inr (getFallbackInsight (random env) request))"

text \<open>
  \<^verbatim>\<open>callClaudeAPI\<close> awaits \<^verbatim>\<open>fetch\<close> with no timer and no abort signal, so the
  call returns only when the \<^verbatim>\<open>fetch\<close> settles. \<open>generateInsight_awaited\<close> is
  \<^verbatim>\<open>generateInsight\<close> over both cases: \<open>None\<close> when it never returns, otherwise what
  it returns or raises. An unconfigured service returns before any call.
\<close>

datatype awaited_reply = NeverSettles | Settles api_reply

definition generateInsight_awaited ::
  "bool \<Rightarrow> awaited_reply \<Rightarrow> rat \<Rightarrow> (jsval \<Rightarrow> rat option) \<Rightarrow> AssessmentInsightRequest
     \<Rightarrow> (js_error + AIInsightResponse) option" where
  "generateInsight_awaited configured fetched r conv request =
     (if \<not> configured then Some (Inr (getFallbackInsight r request))
      else case fetched of
             NeverSettles \<Rightarrow> None
           | Settles reply \<Rightarrow>
               Some (generateInsight
                 \<lparr>isConfigured = True, apiReply = reply, random = r, toNumber = conv\<rparr> request))"

text \<open>\<^verbatim>\<open>getFallbackAssessment\<close>: the fixed baseline result.\<close>

definition getFallbackAssessment :: "FinalAssessmentRequest \<Rightarrow> AIAssessmentResponse" where
  "getFallbackAssessment request =
     \<lparr>ai_overallScore = Some 70,
      ai_performanceLevel = JStr ''Competent'',
      ai_skillLevels =
        \<lparr>customerAnalysis = Some 7, businessCommunication = Some 6, revenueStrategy = Some 8,
         valueArticulation = Some 7, strategicThinking = Some 6\<rparr>,
      ai_challenges = JArr
        [JObj [(''name'', JStr ''Technical Translation Challenge''),
               (''description'', JStr ''Difficulty translating technical capabilities into business value''),
               (''priority'', JStr ''high''),
               (''impact'', JNum 7),
               (''businessConsequence'', JStr ''Heavy discounting to win customers'')]],
      ai_recommendations = JArr
        [JObj [(''category'', JStr ''Technical Translation''),
               (''title'', JStr ''Develop Buyer-Specific Messaging''),
               (''description'', JStr ''Create frameworks to translate technical features into business value propositions''),
               (''priority'', JStr ''high''),
               (''expectedOutcome'', JStr ''40% higher close rates through value-focused presentations''),
               (''timeframe'', JStr ''3-6 months''),
               (''tools'', JArr [JStr ''Technical Translation Framework'',
                                 JStr ''Value Proposition Builder'', JStr ''ROI Calculator''])]],
      ai_focusArea = JStr ''technical_translation'',
      ai_revenueOpportunity = JNum 500000,
      ai_roiMultiplier = Some 3,
      ai_nextSteps = JArr
        [JStr ''Review detailed assessment results'',
         JStr ''Access your 3 revenue intelligence tools'',
         JStr ''Implement systematic improvement approach''],
      ai_confidence = Some 75\<rparr>"

definition emptyFinalRequest :: FinalAssessmentRequest where
  "emptyFinalRequest =
     \<lparr>fin_responses = [], fin_insights = [],
      fin_userInfo = \<lparr>company = [], productName = [], businessModel = [],
                      productDescription = []\<rparr>\<rparr>"

text \<open>\<^verbatim>\<open>Math.min(hi, Math.max(lo, v || dflt))\<close>\<close>

definition clampOr :: "claude_env \<Rightarrow> rat \<Rightarrow> rat \<Rightarrow> jsval \<Rightarrow> rat \<Rightarrow> rat option" where
  "clampOr env lo hi v dflt =
     Math_min (Some hi) (Math_max (Some lo) (ToNumber (toNumber env) (js_or v (JNum dflt))))"

definition parseFinalAssessmentResponse_try ::
  "claude_env \<Rightarrow> ai_text \<Rightarrow> js_error + AIAssessmentResponse" where
  "parseFinalAssessmentResponse_try env t =
     (case t of
        NotText \<Rightarrow> Inl (JsError TypeError ''response.match is not a function'')
      | NoJson \<Rightarrow> Inl (JsError PlainError ''No JSON found in response'')
      | BadJson \<Rightarrow> Inl (JsError SyntaxError ''JSON.parse'')
      | Parsed parsed \<Rightarrow> Inr
          \<lparr>ai_overallScore = clampOr env 0 100 (getProp parsed ''overallScore'') 70,
           ai_performanceLevel = js_or (getProp parsed ''performanceLevel'') (JStr ''Competent''),
           ai_skillLevels =
             \<lparr>customerAnalysis =
                clampOr env 0 10 (optProp (getProp parsed ''skillLevels'') ''customerAnalysis'') 7,
              businessCommunication =
                clampOr env 0 10 (optProp (getProp parsed ''skillLevels'') ''businessCommunication'') 6,
              revenueStrategy =
                clampOr env 0 10 (optProp (getProp parsed ''skillLevels'') ''revenueStrategy'') 8,
              valueArticulation =
                clampOr env 0 10 (optProp (getProp parsed ''skillLevels'') ''valueArticulation'') 7,
              strategicThinking =
                clampOr env 0 10 (optProp (getProp parsed ''skillLevels'') ''strategicThinking'') 6\<rparr>,
           ai_challenges = js_or (getProp parsed ''challenges'') (JArr []),
           ai_recommendations = js_or (getProp parsed ''recommendations'') (JArr []),
           ai_focusArea = js_or (getProp parsed ''focusArea'') (JStr ''customer_analysis''),
           ai_revenueOpportunity = js_or (getProp parsed ''revenueOpportunity'') (JNum 500000),
           ai_roiMultiplier = Math_max (Some 2)
               (ToNumber (toNumber env) (js_or (getProp parsed ''roiMultiplier'') (JNum 3))),
           ai_nextSteps = js_or (getProp parsed ''nextSteps'')
               (JArr [JStr ''Review assessment results'', JStr ''Implement recommendations'']),
           ai_confidence = clampOr env 70 95 (getProp parsed ''confidence'') 80\<rparr>)"

definition parseFinalAssessmentResponse :: "claude_env \<Rightarrow> ai_text \<Rightarrow> AIAssessmentResponse" where
  "parseFinalAssessmentResponse env t =
     (case parseFinalAssessmentResponse_try env t of
        Inr r \<Rightarrow> r
      | Inl error \<Rightarrow> getFallbackAssessment emptyFinalRequest)"

definition generateFinalAssessment_try ::
  "claude_env \<Rightarrow> FinalAssessmentRequest \<Rightarrow> js_error + AIAssessmentResponse" where
  "generateFinalAssessment_try env request =
     (case callClaudeAPI env of
        Inl e \<Rightarrow> Inl e
      | Inr aiResponse \<Rightarrow> Inr (parseFinalAssessmentResponse env aiResponse))"

definition generateFinalAssessment ::
  "claude_env \<Rightarrow> FinalAssessmentRequest \<Rightarrow> js_error + AIAssessmentResponse" where
  "generateFinalAssessment env request =
     (if \<not> isConfigured env then Inr (getFallbackAssessment request)
      else case generateFinalAssessment_try env request of
             Inr assessment \<Rightarrow> Inr assessment
           | Inl error \<Rightarrow> Inr (getFallbackAssessment request))"

text \<open>The call of the endpoint fails: \<^verbatim>\<open>callClaudeAPI\<close> has no text to return.\<close>

fun replyFails :: "api_reply \<Rightarrow> bool" where
  "replyFails (Text t) = False"
| "replyFails r = True"

section \<open>RealTimeInsightService.parseAIResponse\<close>

text \<open>
  The parser of \<^verbatim>\<open>services/realTimeInsightService.ts\<close>. It has no \<^verbatim>\<open>catch\<close>: every
  failure is raised. It returns the parsed object with \<^verbatim>\<open>confidence\<close> overwritten
  when it was out of range; the model returns the five fields the callers read.
\<close>

definition parseAIResponse :: "ai_text \<Rightarrow> js_error + AIInsightResponse" where
  "parseAIResponse aiText =
     (case aiText of
        NotText \<Rightarrow> Inl (JsError TypeError ''aiText.match is not a function'')
      | NoJson \<Rightarrow> Inl (JsError PlainError ''No JSON found in AI response'')
      | BadJson \<Rightarrow> Inl (JsError SyntaxError ''JSON.parse'')
      | Parsed parsed \<Rightarrow>
          (case getProp parsed ''confidence'' of
             JNum c \<Rightarrow>
               if \<not> truthy (getProp parsed ''challengeIdentified'') \<or> \<not> truthy (getProp parsed ''insight'')
                  \<or> \<not> truthy (getProp parsed ''businessImpact'') \<or> \<not> truthy (getProp parsed ''reasoning'')
               then Inl (JsError PlainError ''AI response missing required fields'')
               else Inr
                 \<lparr>challengeIdentified = getProp parsed ''challengeIdentified'',
                  insight = getProp parsed ''insight'',
                  businessImpact = getProp parsed ''businessImpact'',
                  confidence = Some (if c < 70 \<or> c > 95 then max 70 (min 95 c) else c),
                  reasoning = getProp parsed ''reasoning''\<rparr>
           | other \<Rightarrow> Inl (JsError PlainError ''AI response missing required fields'')))"

section \<open>RealTimeInsightEngine\<close>

record BatchAnalysis =
  ba_responses :: "AssessmentResponse list"
  ba_previousInsights :: "Insight list option"
  ba_sessionId :: string
  ba_userInfo :: "insight_user_info option"

text \<open>\<^verbatim>\<open>userInfo?.field || dflt\<close> on a string field.\<close>

definition orDefault :: "insight_user_info option \<Rightarrow> (insight_user_info \<Rightarrow> string) \<Rightarrow> string \<Rightarrow> string" where
  "orDefault u field dflt =
     (case u of None \<Rightarrow> dflt | Some i \<Rightarrow> if field i = [] then dflt else field i)"

definition promptInfo :: "insight_user_info option \<Rightarrow> insight_user_info" where
  "promptInfo u =
     \<lparr>company = orDefault u company ''Unknown Company'',
      productName = orDefault u productName ''Unknown Product'',
      businessModel = orDefault u businessModel ''Unknown Model''\<rparr>"

text \<open>
  \<^verbatim>\<open>analyzeBatch1\<close>, \<^verbatim>\<open>analyzeBatch2\<close>, \<^verbatim>\<open>analyzeBatch3\<close>. \<open>now\<close> is
  \<^verbatim>\<open>new Date().toISOString()\<close>. \<^verbatim>\<open>storeInsight\<close> catches whatever its write to the
  database raises and returns nothing, so it is not a step of the model.
\<close>

definition analyzeBatch1 :: "claude_env \<Rightarrow> string \<Rightarrow> BatchAnalysis \<Rightarrow> js_error + Insight" where
  "analyzeBatch1 env now batch =
     (case generateInsight env
             \<lparr>req_responses = ba_responses batch, req_batchNumber = 1,
              req_previousInsights = None, req_userInfo = promptInfo (ba_userInfo batch)\<rparr> of
        Inl e \<Rightarrow> Inl e
      | Inr aiInsight \<Rightarrow> Inr
          \<lparr>insightId = ''insight_'' @ ba_sessionId batch @ ''_1'',
           ins_sessionId = ba_sessionId batch,
           batchNumber = 1,
           questionRange = ''1-4'',
           ins_insight = insight aiInsight,
           ins_challengeIdentified = challengeIdentified aiInsight,
           ins_businessImpact = businessImpact aiInsight,
           ins_confidence = confidence aiInsight,
           generatedAt = now\<rparr>)"

definition analyzeBatch2 :: "claude_env \<Rightarrow> string \<Rightarrow> BatchAnalysis \<Rightarrow> js_error + Insight" where
  "analyzeBatch2 env now batch =
     (case generateInsight env
             \<lparr>req_responses = ba_responses batch, req_batchNumber = 2,
              req_previousInsights = ba_previousInsights batch,
              req_userInfo = promptInfo (ba_userInfo batch)\<rparr> of
        Inl e \<Rightarrow> Inl e
      | Inr aiInsight \<Rightarrow> Inr
          \<lparr>insightId = ''insight_'' @ ba_sessionId batch @ ''_2'',
           ins_sessionId = ba_sessionId batch,
           batchNumber = 2,
           questionRange = ''5-9'',
           ins_insight = insight aiInsight,
           ins_challengeIdentified = challengeIdentified aiInsight,
           ins_businessImpact = businessImpact aiInsight,
           ins_confidence = confidence aiInsight,
           generatedAt = now\<rparr>)"

definition analyzeBatch3 :: "claude_env \<Rightarrow> string \<Rightarrow> BatchAnalysis \<Rightarrow> js_error + Insight" where
  "analyzeBatch3 env now batch =
     (case generateInsight env
             \<lparr>req_responses = ba_responses batch, req_batchNumber = 3,
              req_previousInsights = ba_previousInsights batch,
              req_userInfo = promptInfo (ba_userInfo batch)\<rparr> of
        Inl e \<Rightarrow> Inl e
      | Inr aiInsight \<Rightarrow> Inr
          \<lparr>insightId = ''insight_'' @ ba_sessionId batch @ ''_3'',
           ins_sessionId = ba_sessionId batch,
           batchNumber = 3,
           questionRange = ''10-12'',
           ins_insight = insight aiInsight,
           ins_challengeIdentified = challengeIdentified aiInsight,
           ins_businessImpact = businessImpact aiInsight,
           ins_confidence = confidence aiInsight,
           generatedAt = now\<rparr>)"

section \<open>SkillAssessmentEngine.generateFinalResults\<close>

text \<open>
  \<^verbatim>\<open>CompetencyLevel\<close> and \<^verbatim>\<open>AssessmentResults\<close> as \<^verbatim>\<open>generateFinalResults\<close> fills
  them. The display text \<^verbatim>\<open>description\<close> of the competency level is left out.
\<close>

record CompetencyLevel =
  level :: jsval
  score :: "rat option"

record AssessmentResults =
  overallScore :: "rat option"
  performanceLevel :: CompetencyLevel
  skillLevels :: SkillLevels
  challenges :: jsval
  recommendations :: jsval
  focusArea :: jsval
  revenueOpportunity :: jsval
  roiMultiplier :: "rat option"
  isHighPriority :: bool
  leadPriority :: string
  impactTimeline :: string
  nextSteps :: jsval
  res_confidence :: "rat option"

text \<open>\<^verbatim>\<open>x < c\<close> on a number that may be \<^verbatim>\<open>NaN\<close>.\<close>

fun js_less :: "rat option \<Rightarrow> rat \<Rightarrow> bool" where
  "js_less (Some x) c = (x < c)"
| "js_less None c = False"

text \<open>
  \<^verbatim>\<open>challenges.some(c => c.priority === p)\<close>: reading \<^verbatim>\<open>priority\<close> of \<^verbatim>\<open>null\<close> is
  a \<^verbatim>\<open>TypeError\<close>, and so is \<^verbatim>\<open>some\<close> on a value that is not an array.
\<close>

fun somePriority :: "string \<Rightarrow> jsval list \<Rightarrow> js_error + bool" where
  "somePriority p [] = Inr False"
| "somePriority p (JNull # cs) = Inl (JsError TypeError ''Cannot read properties of null'')"
| "somePriority p (JUndefined # cs) = Inl (JsError TypeError ''Cannot read properties of undefined'')"
| "somePriority p (c # cs) =
     (if optProp c ''priority'' = JStr p then Inr True else somePriority p cs)"

fun challengesSome :: "string \<Rightarrow> jsval \<Rightarrow> js_error + bool" where
  "challengesSome p (JArr cs) = somePriority p cs"
| "challengesSome p v = Inl (JsError TypeError ''challenges.some is not a function'')"

definition determineLeadPriority :: "CompetencyLevel \<Rightarrow> jsval \<Rightarrow> js_error + string" where
  "determineLeadPriority competencyLevel chs =
     (if js_less (score competencyLevel) 40 then Inr ''high''
      else case challengesSome ''critical'' chs of
             Inl e \<Rightarrow> Inl e
           | Inr True \<Rightarrow> Inr ''high''
           | Inr False \<Rightarrow>
               if js_less (score competencyLevel) 60 then Inr ''medium''
               else case challengesSome ''high'' chs of
                      Inl e \<Rightarrow> Inl e
                    | Inr True \<Rightarrow> Inr ''medium''
                    | Inr False \<Rightarrow> Inr ''low'')"

definition determineImpactTimeline :: "CompetencyLevel \<Rightarrow> string" where
  "determineImpactTimeline competencyLevel =
     (if js_less (score competencyLevel) 40 then ''long_term''
      else if js_less (score competencyLevel) 70 then ''medium_term''
      else ''short_term'')"

record AssessmentData =
  ad_sessionId :: string
  ad_responses :: "AssessmentResponse list"
  ad_insights :: "Insight list"
  ad_userInfo :: session_user_info

text \<open>
  \<^verbatim>\<open>generateFinalResults\<close>. \<^verbatim>\<open>storeResults\<close> runs last, inside its own
  \<^verbatim>\<open>try\<close>/\<^verbatim>\<open>catch\<close>, and only writes to the database: it is not a step of the model.
\<close>

definition generateFinalResults :: "claude_env \<Rightarrow> AssessmentData \<Rightarrow> js_error + AssessmentResults" where
  "generateFinalResults env assessmentData =
     (case generateFinalAssessment env
             \<lparr>fin_responses = ad_responses assessmentData,
              fin_insights = ad_insights assessmentData,
              fin_userInfo =
                \<lparr>company = company (ad_userInfo assessmentData),
                 productName = productName (ad_userInfo assessmentData),
                 businessModel = businessModel (ad_userInfo assessmentData),
                 productDescription = productDescription (ad_userInfo assessmentData)\<rparr>\<rparr> of
        Inl e \<Rightarrow> Inl e
      | Inr aiAssessment \<Rightarrow>
          let competencyLevel =
                \<lparr>level = ai_performanceLevel aiAssessment, score = ai_overallScore aiAssessment\<rparr>
          in (case determineLeadPriority competencyLevel (ai_challenges aiAssessment) of
                Inl e \<Rightarrow> Inl e
              | Inr lead \<Rightarrow> Inr
                  \<lparr>overallScore = ai_overallScore aiAssessment,
                   performanceLevel = competencyLevel,
                   skillLevels = ai_skillLevels aiAssessment,
                   challenges = ai_challenges aiAssessment,
                   recommendations = ai_recommendations aiAssessment,
                   focusArea = ai_focusArea aiAssessment,
                   revenueOpportunity = ai_revenueOpportunity aiAssessment,
                   roiMultiplier = ai_roiMultiplier aiAssessment,
                   isHighPriority = js_less (ai_overallScore aiAssessment) 60,
                   leadPriority = lead,
                   impactTimeline = determineImpactTimeline competencyLevel,
                   nextSteps = ai_nextSteps aiAssessment,
                   res_confidence = ai_confidence aiAssessment\<rparr>))"

section \<open>SupabaseAssessmentService.updateAssessmentStatus\<close>

text \<open>
  What the database client does when \<^verbatim>\<open>updateAssessmentStatus\<close> reaches it: the service
  is disabled and the client is not called, the client call throws, it returns an error
  object (which the method throws itself), or it returns data. The whole body after
  the enabled check is inside \<^verbatim>\<open>try\<close>/\<^verbatim>\<open>catch\<close>.
\<close>

datatype db_reply = DbDisabled | DbThrows js_error | DbError js_error | DbData

record UpdateResult =
  upd_success :: bool
  upd_error :: "string option"

fun message :: "js_error \<Rightarrow> string" where
  "message (JsError c m) = m"

definition updateAssessmentStatus :: "db_reply \<Rightarrow> js_error + UpdateResult" where
  "updateAssessmentStatus db =
     (case db of
        DbDisabled \<Rightarrow> Inr \<lparr>upd_success = False, upd_error = Some ''supabase_not_configured''\<rparr>
      | DbThrows e \<Rightarrow> Inr \<lparr>upd_success = False, upd_error = Some (message e)\<rparr>
      | DbError e \<Rightarrow> Inr \<lparr>upd_success = False, upd_error = Some (message e)\<rparr>
      | DbData \<Rightarrow> Inr \<lparr>upd_success = True, upd_error = None\<rparr>)"

section \<open>AssessmentServiceLite\<close>

datatype session_status = in_progress | completed | insight_generated | results_generated

record AssessmentSession =
  sessionId :: string
  userInfo :: session_user_info
  responses :: "AssessmentResponse list"
  insights :: "Insight list"
  status :: session_status
  startedAt :: string
  completedAt :: "string option"

text \<open>
  The environment of one operation of the service: the identifier that
  \<^verbatim>\<open>startAssessment\<close> makes from the clock and \<^verbatim>\<open>Math.random()\<close>, the reading of
  \<^verbatim>\<open>new Date().toISOString()\<close>, the environment of the AI service, what the database
  client does, and \<open>persistRaises\<close>: what the awaited
  \<^verbatim>\<open>supabaseAssessmentService.createAssessmentSession\<close> (in \<^verbatim>\<open>startAssessment\<close>) or
  \<^verbatim>\<open>supabaseAssessmentService.storeAssessmentResponse\<close> (in \<^verbatim>\<open>addResponse\<close>) does.
  None of the \<^verbatim>\<open>SupabaseAssessmentService\<close> classes among the sources defines
  these two methods, so their behaviour is an input: \<open>None\<close> when the call returns,
  \<open>Some e\<close> when it raises \<open>e\<close> (as a call of a method that does not exist does).
\<close>

record svc_env =
  newSessionId :: string
  nowIso :: string
  persistRaises :: "js_error option"
  claude :: claude_env
  dbReply :: db_reply

record op_reply =
  success :: bool
  error :: "string option"

record start_reply = op_reply +
  startedId :: string

record complete_reply = op_reply +
  results :: "AssessmentResults option"

text \<open>One call of the insight engine: which \<^verbatim>\<open>analyzeBatch\<close> and its argument.\<close>

record engine_call =
  ec_batchNumber :: nat
  ec_batch :: BatchAnalysis

text \<open>\<^verbatim>\<open>xs.slice(a, b)\<close> for indices that are not negative.\<close>

definition slice :: "'a list \<Rightarrow> nat \<Rightarrow> nat \<Rightarrow> 'a list" where
  "slice xs a b = drop a (take b xs)"

definition startAssessment ::
  "svc_env \<Rightarrow> session_user_info \<Rightarrow> (string \<rightharpoonup> AssessmentSession)
     \<Rightarrow> start_reply \<times> (string \<rightharpoonup> AssessmentSession)" where
  "startAssessment env info sessions =
     (let sid = ''session_'' @ newSessionId env;
          fresh = \<lparr>sessionId = sid, userInfo = info, responses = [], insights = [],
                   status = in_progress, startedAt = nowIso env, completedAt = None\<rparr>;
          sessions' = sessions(sid \<mapsto> fresh)
      in case persistRaises env of
           None \<Rightarrow> (\<lparr>success = True, error = None, startedId = sid\<rparr>, sessions')
         | Some e \<Rightarrow> (\<lparr>success = False, error = Some (message e), startedId = []\<rparr>, sessions'))"

text \<open>
  \<^verbatim>\<open>generateInsight(session, batchNumber, questionRange)\<close> of the service. The awaited
  \<^verbatim>\<open>updateAssessmentStatus\<close> after the push changes nothing in the session, whatever
  it does.
\<close>

definition session_generateInsight ::
  "svc_env \<Rightarrow> AssessmentSession \<Rightarrow> nat \<Rightarrow> string \<Rightarrow> AssessmentSession \<times> engine_call list" where
  "session_generateInsight env sess n qRange =
     (let startIndex = (if n = 1 then 0 else if n = 2 then 4 else 9);
          endIndex = (if n = 1 then 4 else if n = 2 then 9 else 12);
          batchResponses = slice (responses sess) startIndex endIndex;
          info = \<lparr>company = company (userInfo sess), productName = productName (userInfo sess),
                  businessModel = businessModel (userInfo sess)\<rparr>;
          batch = \<lparr>ba_responses = batchResponses,
                   ba_previousInsights = (if n = 1 then None else Some (insights sess)),
                   ba_sessionId = sessionId sess, ba_userInfo = Some info\<rparr>;
          analysed = (if n = 1 then analyzeBatch1 (claude env) (nowIso env) batch
                      else if n = 2 then analyzeBatch2 (claude env) (nowIso env) batch
                      else analyzeBatch3 (claude env) (nowIso env) batch)
      in ((case analysed of
             Inl e \<Rightarrow> sess
           | Inr new \<Rightarrow> sess\<lparr>insights := insights sess @ [new], status := insight_generated\<rparr>),
          [\<lparr>ec_batchNumber = n, ec_batch = batch\<rparr>]))"

definition checkForInsightGeneration ::
  "svc_env \<Rightarrow> AssessmentSession \<Rightarrow> AssessmentSession \<times> engine_call list" where
  "checkForInsightGeneration env sess =
     (let responseCount = length (responses sess) in
      if responseCount = 4 \<and> \<not> list_ex (\<lambda>i. batchNumber i = 1) (insights sess)
      then session_generateInsight env sess 1 ''1-4''
      else if responseCount = 9 \<and> \<not> list_ex (\<lambda>i. batchNumber i = 2) (insights sess)
      then session_generateInsight env sess 2 ''5-9''
      else if responseCount = 12 \<and> \<not> list_ex (\<lambda>i. batchNumber i = 3) (insights sess)
      then session_generateInsight env sess 3 ''10-12''
      else (sess, []))"

text \<open>
  \<^verbatim>\<open>addResponse\<close>: its reply, the sessions afterwards and the calls it made to the
  insight engine. The pushed response stays in the session when the awaited write raises.
\<close>

definition addResponse ::
  "svc_env \<Rightarrow> string \<Rightarrow> AssessmentResponse \<Rightarrow> (string \<rightharpoonup> AssessmentSession)
     \<Rightarrow> op_reply \<times> (string \<rightharpoonup> AssessmentSession) \<times> engine_call list" where
  "addResponse env sid resp sessions =
     (case sessions sid of
        None \<Rightarrow> (\<lparr>success = False, error = Some ''Session not found''\<rparr>, sessions, [])
      | Some sess \<Rightarrow>
          let pushed = sess\<lparr>responses := responses sess @ [resp]\<rparr> in
          (case persistRaises env of
             Some e \<Rightarrow> (\<lparr>success = False, error = Some (message e)\<rparr>, sessions(sid \<mapsto> pushed), [])
           | None \<Rightarrow>
               (\<lparr>success = True, error = None\<rparr>,
                sessions(sid \<mapsto> fst (checkForInsightGeneration env pushed)),
                snd (checkForInsightGeneration env pushed))))"

definition completeAssessment ::
  "svc_env \<Rightarrow> string \<Rightarrow> (string \<rightharpoonup> AssessmentSession)
     \<Rightarrow> complete_reply \<times> (string \<rightharpoonup> AssessmentSession)" where
  "completeAssessment env sid sessions =
     (case sessions sid of
        None \<Rightarrow> (\<lparr>success = False, error = Some ''Session not found'', results = None\<rparr>, sessions)
      | Some sess \<Rightarrow>
          if length (responses sess) < 12 then
            (\<lparr>success = False, error = Some ''Assessment not complete - need 12 responses'',
              results = None\<rparr>, sessions)
          else
            (case generateFinalResults (claude env)
                    \<lparr>ad_sessionId = sessionId sess, ad_responses = responses sess,
                     ad_insights = insights sess, ad_userInfo = userInfo sess\<rparr> of
               Inl e \<Rightarrow> (\<lparr>success = False, error = Some (message e), results = None\<rparr>, sessions)
             | Inr res \<Rightarrow>
                 let finished = sess\<lparr>status := completed, completedAt := Some (nowIso env)\<rparr> in
                 (case updateAssessmentStatus (dbReply env) of
                    Inl e \<Rightarrow> (\<lparr>success = False, error = Some (message e), results = None\<rparr>,
                              sessions(sid \<mapsto> finished))
                  | Inr u \<Rightarrow> (\<lparr>success = True, error = None, results = Some res\<rparr>,
                              sessions(sid \<mapsto> finished)))))"

text \<open>
  The session maps that sequences of the three operations reach from the empty map,
  under every environment.
\<close>

inductive reachable :: "(string \<rightharpoonup> AssessmentSession) \<Rightarrow> bool" where
  initial: "reachable Map.empty"
| started: "reachable sessions \<Longrightarrow> reachable (snd (startAssessment env info sessions))"
| added: "reachable sessions \<Longrightarrow> reachable (fst (snd (addResponse env sid resp sessions)))"
| finished: "reachable sessions \<Longrightarrow> reachable (snd (completeAssessment env sid sessions))"

text \<open>The response count at which the insight of a batch is due.\<close>

definition milestone :: "nat \<Rightarrow> nat" where
  "milestone n = (if n = 1 then 4 else if n = 2 then 9 else 12)"

text \<open>
  The engine call that the claim on batching expects of \<^verbatim>\<open>addResponse\<close>, given the
  responses after the push: the batch number and the slice of the responses.
\<close>

definition expectedBatch :: "AssessmentResponse list \<Rightarrow> (nat \<times> AssessmentResponse list) list" where
  "expectedBatch rs =
     (if length rs = 4 then [(1, slice rs 0 4)]
      else if length rs = 9 then [(2, slice rs 4 9)]
      else if length rs = 12 then [(3, slice rs 9 12)]
      else [])"

definition batchesOf :: "engine_call list \<Rightarrow> (nat \<times> AssessmentResponse list) list" where
  "batchesOf cs = map (\<lambda>c. (ec_batchNumber c, ba_responses (ec_batch c))) cs"

text \<open>
  The invariant of a session: no two insights share a batch number, every batch number
  is 1, 2 or 3, and an insight is only there once the response count of its batch has
  been reached.
\<close>

definition sessionInv :: "AssessmentSession \<Rightarrow> bool" where
  "sessionInv sess \<longleftrightarrow>
     distinct (map batchNumber (insights sess))
     \<and> (\<forall>i \<in> set (insights sess).
          batchNumber i \<in> {1, 2, 3} \<and> milestone (batchNumber i) \<le> length (responses sess))"

definition allInv :: "(string \<rightharpoonup> AssessmentSession) \<Rightarrow> bool" where
  "allInv sessions \<longleftrightarrow> (\<forall>sid sess. sessions sid = Some sess \<longrightarrow> sessionInv sess)"

text \<open>Adding a list of responses to one session, one \<^verbatim>\<open>addResponse\<close> after the other.\<close>

fun addAll ::
  "svc_env \<Rightarrow> string \<Rightarrow> AssessmentResponse list \<Rightarrow> (string \<rightharpoonup> AssessmentSession)
     \<Rightarrow> (string \<rightharpoonup> AssessmentSession)" where
  "addAll env sid [] sessions = sessions"
| "addAll env sid (r # rs) sessions = addAll env sid rs (fst (snd (addResponse env sid r sessions)))"

section \<open>Concrete inputs\<close>

text \<open>An operation that fails with an external-service error on every invocation.\<close>

definition alwaysDown :: "nat \<Rightarrow> js_error + unit" where
  "alwaysDown k = Inl (JsError ExternalServiceError ''External service error: down'')"

text \<open>An operation whose first invocation raises a validation error.\<close>

definition invalidFirst :: "nat \<Rightarrow> js_error + nat" where
  "invalidFirst k = (if k = 0 then Inl (JsError ValidationError ''bad input'') else Inr 7)"

text \<open>A payload of the endpoint with all five fields and a confidence of 65.\<close>

definition payload65 :: "(string \<times> jsval) list" where
  "payload65 =
     [(''challengeIdentified'', JStr ''Buyer Conversations Challenge''),
      (''insight'', JStr ''Deals stall after the demo.''),
      (''businessImpact'', JStr ''Longer sales cycles''),
      (''confidence'', JNum 65),
      (''reasoning'', JStr ''Low scores on buyer questions'')]"

definition noConversion :: "jsval \<Rightarrow> rat option" where
  "noConversion v = None"

definition env65 :: claude_env where
  "env65 = \<lparr>isConfigured = True, apiReply = Text (Parsed payload65), random = 0,
            toNumber = noConversion\<rparr>"

definition batch2Request :: AssessmentInsightRequest where
  "batch2Request = emptyInsightRequest\<lparr>req_batchNumber := 2\<rparr>"

definition insight65 :: AIInsightResponse where
  "insight65 =
     \<lparr>challengeIdentified = JStr ''Buyer Conversations Challenge'',
      insight = JStr ''Deals stall after the demo.'',
      businessImpact = JStr ''Longer sales cycles'',
      confidence = Some 65,
      reasoning = JStr ''Low scores on buyer questions''\<rparr>"

text \<open>Payloads of the final assessment that report an overall score of -5 and of 0.\<close>

definition payloadNegative :: "(string \<times> jsval) list" where
  "payloadNegative = [(''overallScore'', JNum (- 5)), (''performanceLevel'', JStr ''Foundation'')]"

definition envNegative :: claude_env where
  "envNegative = \<lparr>isConfigured = True, apiReply = Text (Parsed payloadNegative), random = 0,
            toNumber = noConversion\<rparr>"

definition payloadZero :: "(string \<times> jsval) list" where
  "payloadZero = [(''overallScore'', JNum 0), (''performanceLevel'', JStr ''Foundation'')]"

definition envZero :: claude_env where
  "envZero = \<lparr>isConfigured = True, apiReply = Text (Parsed payloadZero), random = 0,
            toNumber = noConversion\<rparr>"

text \<open>
  Calls on the key \<^verbatim>\<open>ai-insight\<close> under the default options: five failures, then,
  after the recovery timeout, one success.
\<close>

definition failing :: "js_error + unit" where
  "failing = Inl (JsError ExternalServiceError ''External service error: down'')"

definition probeCalls :: "(int \<times> (js_error + unit) \<times> int) list" where
  "probeCalls =
     [(1, failing, 1), (2, failing, 2), (3, failing, 3), (4, failing, 4), (5, failing, 5),
      (70000, Inr (), 70000)]"

definition afterProbe :: "string \<rightharpoonup> circuit_state" where
  "afterProbe = executeAll ''ai-insight'' defaultOptions probeCalls Map.empty"

text \<open>
  A user, a scale response, an environment in which the endpoint answers 503, the same
  environment with a persistence call that raises, the sessions after
  \<^verbatim>\<open>startAssessment\<close> and after three and four responses, and a session that holds
  twelve responses.
\<close>

definition userA :: session_user_info where
  "userA = \<lparr>company = ''Acme'', productName = ''Rocket'', businessModel = ''SaaS'',
            productDescription = ''Rockets as a service'', email = ''a@acme.test''\<rparr>"

definition claudeOutage :: claude_env where
  "claudeOutage = \<lparr>isConfigured = True, apiReply = NotOk ''503 Service Unavailable'', random = 0,
                   toNumber = noConversion\<rparr>"

definition envOk :: svc_env where
  "envOk = \<lparr>newSessionId = ''a'', nowIso = ''2025-10-25T00:00:00.000Z'', persistRaises = None,
            claude = claudeOutage, dbReply = DbDisabled\<rparr>"

definition envRaise :: svc_env where
  "envRaise = envOk\<lparr>persistRaises :=
     Some (JsError TypeError ''supabaseAssessmentService.storeAssessmentResponse is not a function'')\<rparr>"

definition scaleResponse :: AssessmentResponse where
  "scaleResponse = \<lparr>questionId = ''q'', questionText = ''How well do you know your buyers?'',
                    response = RNum 3, responseType = scale, timestamp = 0\<rparr>"

definition envStartRaise :: svc_env where
  "envStartRaise = envOk\<lparr>persistRaises :=
     Some (JsError TypeError ''supabaseAssessmentService.createAssessmentSession is not a function'')\<rparr>"

text \<open>
  The sessions after \<^verbatim>\<open>startAssessment\<close> and three responses when every persistence
  call raises, as the calls of the two missing methods do.
\<close>

definition sessionsRaised :: "string \<rightharpoonup> AssessmentSession" where
  "sessionsRaised =
     addAll envRaise ''session_a'' [scaleResponse, scaleResponse, scaleResponse]
       (snd (startAssessment envStartRaise userA Map.empty))"

definition sessions0 :: "string \<rightharpoonup> AssessmentSession" where
  "sessions0 = snd (startAssessment envOk userA Map.empty)"

definition sessions3 :: "string \<rightharpoonup> AssessmentSession" where
  "sessions3 = addAll envOk ''session_a'' [scaleResponse, scaleResponse, scaleResponse] sessions0"

definition sessions4 :: "string \<rightharpoonup> AssessmentSession" where
  "sessions4 =
     addAll envOk ''session_a'' [scaleResponse, scaleResponse, scaleResponse, scaleResponse]
       sessions0"

definition session3 :: AssessmentSession where
  "session3 = \<lparr>sessionId = ''session_a'', userInfo = userA,
                responses = [scaleResponse, scaleResponse, scaleResponse], insights = [],
                status = in_progress, startedAt = ''2025-10-25T00:00:00.000Z'',
                completedAt = None\<rparr>"

definition session12 :: AssessmentSession where
  "session12 = \<lparr>sessionId = ''session_a'', userInfo = userA,
                responses = replicate 12 scaleResponse, insights = [],
                status = in_progress, startedAt = ''2025-10-25T00:00:00.000Z'',
                completedAt = None\<rparr>"

definition sessions12 :: "string \<rightharpoonup> AssessmentSession" where
  "sessions12 = [''session_a'' \<mapsto> session12]"

section \<open>Properties of RetryHandler.withRetry\<close>

lemma withRetry_loop_always_fails:
  assumes fails: "alwaysFailsRetryable operation"
    and lt: "int attempt < maxRetries"
  shows "withRetry_loop operation maxRetries delayMs backoffMultiplier attempt lastError slept =
           \<lparr>outcome = Inl (errorAt operation (nat maxRetries - 1)), calls = nat maxRetries,
            delays = slept @ map (\<lambda>n. delayMs * backoffMultiplier ^ n) [attempt ..< nat maxRetries - 1]\<rparr>"
  using lt
proof (induction "nat maxRetries - attempt" arbitrary: attempt lastError slept)
  case 0
  then show ?case by simp
next
  case (Suc d)
  obtain e where e: "operation attempt = Inl e" "\<not> nonRetryable e"
    using fails unfolding alwaysFailsRetryable_def by blast
  show ?case
  proof (cases "int attempt = maxRetries - 1")
    case True
    then have "nat maxRetries - 1 = attempt" by simp
    then show ?thesis
      using True Suc.prems e
      by (subst withRetry_loop.simps) (simp add: errorAt_def)
  next
    case False
    then have lt': "int (attempt + 1) < maxRetries" using Suc.prems by simp
    have d: "d = nat maxRetries - (attempt + 1)" using Suc.hyps(2) by simp
    have up: "[attempt ..< nat maxRetries - Suc 0] = attempt # [Suc attempt ..< nat maxRetries - Suc 0]"
      using lt' by (simp add: upt_conv_Cons)
    show ?thesis
      using False Suc.prems e
        Suc.hyps(1) [OF d lt', of "Some e" "slept @ [delayMs * backoffMultiplier ^ attempt]"]
      by (subst withRetry_loop.simps) (simp add: up)
  qed
qed

lemma strict_delays:
  assumes "0 < (d::rat)" "1 < b"
  shows "sorted_wrt (<) (map (\<lambda>n. d * b ^ n) [i ..< j])"
proof -
  have "strict_mono (\<lambda>n. d * b ^ n)"
    using assms by (simp add: strict_mono_def power_strict_increasing)
  then show ?thesis
    by (simp add: sorted_wrt_map strict_mono_def sorted_wrt_iff_nth_less)
qed

text \<open>
  Claim C7, as amended. For an operation that fails on every invocation with a
  retryable error and \<open>maxRetries \<ge> 1\<close>, \<^verbatim>\<open>withRetry\<close> invokes the operation exactly
  \<open>maxRetries\<close> times; the delay slept after the failed attempt \<open>n\<close> (counted from 0),
  before attempt \<open>n + 1\<close>, is \<open>delayMs * backoffMultiplier ^ n\<close>, with no delay after
  the last attempt; the error raised is the error of the last invocation, unchanged; and
  the delays are strictly increasing when \<open>delayMs > 0\<close> and \<open>backoffMultiplier > 1\<close>.
\<close>

theorem withRetry_exhausts:
  assumes "alwaysFailsRetryable operation" and "1 \<le> maxRetries"
  shows "calls (withRetry operation maxRetries delayMs backoffMultiplier) = nat maxRetries
       \<and> delays (withRetry operation maxRetries delayMs backoffMultiplier)
           = map (\<lambda>n. delayMs * backoffMultiplier ^ n) [0 ..< nat maxRetries - 1]
       \<and> outcome (withRetry operation maxRetries delayMs backoffMultiplier)
           = Inl (errorAt operation (nat maxRetries - 1))
       \<and> errorAt operation (nat maxRetries - 1) \<noteq> None
       \<and> (0 < delayMs \<and> 1 < backoffMultiplier \<longrightarrow>
            sorted_wrt (<) (delays (withRetry operation maxRetries delayMs backoffMultiplier)))"
proof -
  have lt: "int 0 < maxRetries" using assms(2) by simp
  have run: "withRetry operation maxRetries delayMs backoffMultiplier =
      \<lparr>outcome = Inl (errorAt operation (nat maxRetries - 1)), calls = nat maxRetries,
       delays = map (\<lambda>n. delayMs * backoffMultiplier ^ n) [0 ..< nat maxRetries - 1]\<rparr>"
    unfolding withRetry_def
    using withRetry_loop_always_fails [OF assms(1) lt, of delayMs backoffMultiplier None "[]"] by simp
  have ne: "errorAt operation (nat maxRetries - 1) \<noteq> None"
    using assms(1) unfolding alwaysFailsRetryable_def errorAt_def
    by (metis option.distinct(1) sum.simps(5))
  show ?thesis using run ne strict_delays by simp
qed

theorem withRetry_exhausts_witness:
  "calls (withRetry alwaysDown 3 1000 2) = 3
   \<and> delays (withRetry alwaysDown 3 1000 2) = [1000, 2000]
   \<and> outcome (withRetry alwaysDown 3 1000 2)
       = Inl (Some (JsError ExternalServiceError ''External service error: down''))
   \<and> sorted_wrt (<) (delays (withRetry alwaysDown 3 1000 2))"
proof -
  have a: "alwaysFailsRetryable alwaysDown"
    by (simp add: alwaysFailsRetryable_def nonRetryable_def alwaysDown_def)
  have b: "(1::int) \<le> 3" by simp
  have u: "[0 ..< 2::nat] = [0, 1]" by code_simp
  show ?thesis
    using withRetry_exhausts [OF a b, of 1000 2] by (simp add: errorAt_def u alwaysDown_def)
qed

text \<open>
  Claim C7 as stated fails: with \<open>backoffMultiplier = 1\<close> the operation that is always
  down is retried with the delays 1000, 1000, which are not strictly increasing.
\<close>

theorem withRetry_constant_delay_counterexample:
  "alwaysFailsRetryable alwaysDown
   \<and> delays (withRetry alwaysDown 3 1000 1) = [1000, 1000]
   \<and> \<not> sorted_wrt (<) (delays (withRetry alwaysDown 3 1000 1))"
  by (simp add: alwaysFailsRetryable_def nonRetryable_def withRetry_def withRetry_loop.simps
      alwaysDown_def)

text \<open>
  Claim C8. When the first invocation of the operation raises a Validation,
  Authentication or Authorization error and \<open>maxRetries \<ge> 1\<close>, \<^verbatim>\<open>withRetry\<close> invokes
  the operation exactly once, sleeps no delay, and raises that same error.
\<close>

theorem withRetry_nonretryable_once:
  assumes "operation 0 = Inl e" and "nonRetryable e" and "1 \<le> maxRetries"
  shows "calls (withRetry operation maxRetries delayMs backoffMultiplier) = 1
       \<and> delays (withRetry operation maxRetries delayMs backoffMultiplier) = []
       \<and> outcome (withRetry operation maxRetries delayMs backoffMultiplier) = Inl (Some e)"
proof -
  have "withRetry_loop operation maxRetries delayMs backoffMultiplier 0 None [] =
          \<lparr>outcome = Inl (Some e), calls = 1, delays = []\<rparr>"
    using assms by (subst withRetry_loop.simps) simp
  then show ?thesis by (simp add: withRetry_def)
qed

theorem withRetry_nonretryable_once_witness:
  "calls (withRetry invalidFirst 3 1000 2) = 1
   \<and> delays (withRetry invalidFirst 3 1000 2) = []
   \<and> outcome (withRetry invalidFirst 3 1000 2) = Inl (Some (JsError ValidationError ''bad input''))"
proof -
  have a: "invalidFirst 0 = Inl (JsError ValidationError ''bad input'')"
    by (simp add: invalidFirst_def)
  have b: "nonRetryable (JsError ValidationError ''bad input'')" by (simp add: nonRetryable_def)
  have c: "(1::int) \<le> 3" by simp
  show ?thesis
    using a b c
      withRetry_nonretryable_once [of invalidFirst "JsError ValidationError ''bad input''" 3 1000 2]
    by simp
qed

section \<open>Properties of ClaudeAIService\<close>


text \<open>
  The part of the claim that the code does satisfy, for every \<^verbatim>\<open>fetch\<close> that settles:
  \<^verbatim>\<open>generateInsight\<close> raises nothing; it returns the fallback insight when the service
  is not configured, when the call of the endpoint fails and when the text does not
  parse to an object with a challenge and an insight; otherwise it returns the parsed
  insight.
\<close>

lemma fallback_ignores_request:
  "getFallbackInsight r request = getFallbackInsight r request'"
  by (simp add: getFallbackInsight_def)

lemma generateInsight_unconfigured:
  assumes "\<not> isConfigured env"
  shows "generateInsight env request = Inr (getFallbackInsight (random env) request)"
  using assms by (simp add: generateInsight_def)

lemma generateInsight_call_fails:
  assumes "isConfigured env" and "replyFails (apiReply env)"
  shows "generateInsight env request = Inr (getFallbackInsight (random env) request)"
  using assms
  by (cases "apiReply env")
     (simp_all add: generateInsight_def generateInsight_try_def callClaudeAPI_def)

lemma parseInsightResponse_try_fails:
  "(\<exists>e. parseInsightResponse_try env t = Inl e) \<longleftrightarrow>
     (case t of
        Parsed parsed \<Rightarrow>
          \<not> truthy (getProp parsed ''challengeIdentified'') \<or> \<not> truthy (getProp parsed ''insight'')
      | other \<Rightarrow> True)"
  by (cases t) (simp_all add: parseInsightResponse_try_def)

lemma generateInsight_parse_fails:
  assumes "isConfigured env" and "apiReply env = Text t"
    and "parseInsightResponse_try env t = Inl e"
  shows "generateInsight env request = Inr (getFallbackInsight (random env) request)"
  using assms fallback_ignores_request [of "random env" emptyInsightRequest request]
  by (simp add: generateInsight_def generateInsight_try_def callClaudeAPI_def
      parseInsightResponse_def)

lemma generateInsight_parsed:
  assumes "isConfigured env" and "apiReply env = Text t"
    and "parseInsightResponse_try env t = Inr parsedInsight"
  shows "generateInsight env request = Inr parsedInsight"
  using assms
  by (simp add: generateInsight_def generateInsight_try_def callClaudeAPI_def
      parseInsightResponse_def)

lemma generateInsight_total: "\<exists>i. generateInsight env request = Inr i"
  by (simp add: generateInsight_def split: sum.split)

lemma generateInsight_awaited_settles:
  "\<exists>i. generateInsight_awaited configured (Settles reply) r conv request = Some (Inr i)"
  using generateInsight_total by (simp add: generateInsight_awaited_def)

lemma generateInsight_awaited_outage:
  assumes "replyFails reply"
  shows "generateInsight_awaited configured (Settles reply) r conv request
           = Some (Inr (getFallbackInsight r request))"
  using assms
    generateInsight_call_fails
      [of "\<lparr>isConfigured = True, apiReply = reply, random = r, toNumber = conv\<rparr>" request]
  by (simp add: generateInsight_awaited_def)

lemma generateInsight_outage_example:
  "generateInsight claudeOutage batch2Request
     = Inr \<lparr>challengeIdentified = JStr ''Technical Translation Challenge'',
            insight = JStr ''Based on your responses, you show strong technical understanding but may benefit from focusing on buyer-centric conversations to improve deal outcomes.'',
            businessImpact = JStr ''Potential revenue impact from improved sales conversations'',
            confidence = Some 70,
            reasoning = JStr ''Fallback analysis based on standard assessment patterns''\<rparr>"
proof -
  have "isConfigured claudeOutage" "replyFails (apiReply claudeOutage)"
    by (simp_all add: claudeOutage_def)
  then have "generateInsight claudeOutage batch2Request
      = Inr (getFallbackInsight (random claudeOutage) batch2Request)"
    by (rule generateInsight_call_fails)
  then show ?thesis
    by (simp add: claudeOutage_def getFallbackInsight_def randomChallenge_def
        fallbackChallenges_def)
qed

text \<open>
  Claim C6 as stated fails: for a request of batch 2 and a payload that parses with a
  confidence of 65, \<^verbatim>\<open>generateInsight\<close> returns the confidence 65, below 70.
\<close>

theorem confidence_batch2_counterexample:
  "req_batchNumber batch2Request = 2
   \<and> generateInsight env65 batch2Request = Inr insight65
   \<and> confidence insight65 = Some 65
   \<and> \<not> (70 \<le> (65::rat))"
  by (simp add: batch2Request_def emptyInsightRequest_def generateInsight_def
      generateInsight_try_def callClaudeAPI_def env65_def parseInsightResponse_def
      parseInsightResponse_try_def payload65_def getProp_def js_or_def insight65_def)

text \<open>
  Claim C6, as amended. For a payload that parses successfully and whose confidence is a
  number \<open>c\<close>, \<^verbatim>\<open>ClaudeAIService.generateInsight\<close> returns the confidence clamped into
  [60, 95] whatever the batch number of the request (a confidence of 0 is first replaced
  by 75), and \<^verbatim>\<open>RealTimeInsightService.parseAIResponse\<close> returns it clamped into
  [70, 95], without a batch number; a value inside the range of the respective service is
  returned unchanged, and clamping raises nothing.
\<close>

theorem insight_confidence_clamped:
  assumes "isConfigured env" and "apiReply env = Text (Parsed parsed)"
    and "truthy (getProp parsed ''challengeIdentified'')" and "truthy (getProp parsed ''insight'')"
    and "getProp parsed ''confidence'' = JNum c"
  shows "(\<exists>r. generateInsight env request = Inr r
            \<and> confidence r = Some (min 95 (max 60 (if c = 0 then 75 else c)))
            \<and> (60 \<le> c \<and> c \<le> 95 \<longrightarrow> confidence r = Some c))
       \<and> (truthy (getProp parsed ''businessImpact'') \<and> truthy (getProp parsed ''reasoning'') \<longrightarrow>
            (\<exists>r. parseAIResponse (Parsed parsed) = Inr r
               \<and> confidence r = Some (max 70 (min 95 c))
               \<and> (70 \<le> c \<and> c \<le> 95 \<longrightarrow> confidence r = Some c)))"
  using assms
  by (auto simp add: generateInsight_def generateInsight_try_def callClaudeAPI_def
      parseInsightResponse_def parseInsightResponse_try_def js_or_def parseAIResponse_def)

theorem insight_confidence_clamped_witness:
  "(\<exists>r. generateInsight env65 batch2Request = Inr r \<and> confidence r = Some 65)
   \<and> (\<exists>r. parseAIResponse (Parsed payload65) = Inr r \<and> confidence r = Some 70)"
proof -
  have a: "isConfigured env65" "apiReply env65 = Text (Parsed payload65)"
    by (simp_all add: env65_def)
  have b: "truthy (getProp payload65 ''challengeIdentified'')" "truthy (getProp payload65 ''insight'')"
    "getProp payload65 ''confidence'' = JNum 65"
    "truthy (getProp payload65 ''businessImpact'')" "truthy (getProp payload65 ''reasoning'')"
    by (simp_all add: payload65_def getProp_def)
  show ?thesis
    using insight_confidence_clamped [OF a b(1) b(2) b(3), of batch2Request] b(4) b(5) by simp
qed

text \<open>
  Claim C9 as stated fails: the fallback draws its challenge with \<^verbatim>\<open>Math.random()\<close>,
  so two invocations on the same request with the draws 0 and 1/2 return different
  insights.
\<close>

theorem fallback_random_counterexample:
  "challengeIdentified (getFallbackInsight 0 emptyInsightRequest) = JStr ''Technical Translation Challenge''
   \<and> challengeIdentified (getFallbackInsight (1/2) emptyInsightRequest) = JStr ''Buyer Conversations Challenge''
   \<and> getFallbackInsight 0 emptyInsightRequest \<noteq> getFallbackInsight (1/2) emptyInsightRequest"
proof -
  have "\<lfloor>(1/2::rat) * 3\<rfloor> = 1" by (rule floor_unique) simp_all
  then show ?thesis
    by (simp add: getFallbackInsight_def randomChallenge_def fallbackChallenges_def)
qed

text \<open>
  Claim C9, as amended. Two invocations of the fallback on the same request return the
  same insight text, business impact, confidence (70) and reasoning; the challenge is
  drawn at random from the fixed pool of three, so it is the same only when the draw is.
\<close>

theorem fallback_fixed_fields:
  "insight (getFallbackInsight r1 request) = insight (getFallbackInsight r2 request)
   \<and> businessImpact (getFallbackInsight r1 request) = businessImpact (getFallbackInsight r2 request)
   \<and> confidence (getFallbackInsight r1 request) = Some 70
   \<and> confidence (getFallbackInsight r2 request) = Some 70
   \<and> reasoning (getFallbackInsight r1 request) = reasoning (getFallbackInsight r2 request)
   \<and> (0 \<le> r1 \<and> r1 < 1 \<longrightarrow>
        challengeIdentified (getFallbackInsight r1 request) \<in> JStr ` set fallbackChallenges)
   \<and> (r1 = r2 \<longrightarrow> getFallbackInsight r1 request = getFallbackInsight r2 request)"
proof -
  have "0 \<le> r1 \<and> r1 < 1 \<longrightarrow> randomChallenge r1 \<in> JStr ` set fallbackChallenges"
  proof
    assume r: "0 \<le> r1 \<and> r1 < 1"
    then have "0 \<le> \<lfloor>r1 * 3\<rfloor>" "\<lfloor>r1 * 3\<rfloor> < 3" by (simp_all add: floor_less_iff)
    then have "nat \<lfloor>r1 * 3\<rfloor> < 3" by linarith
    then have "nat \<lfloor>r1 * 3\<rfloor> < length fallbackChallenges" by (simp add: fallbackChallenges_def)
    then have "fallbackChallenges ! nat \<lfloor>r1 * 3\<rfloor> \<in> set fallbackChallenges" by (rule nth_mem)
    moreover have "randomChallenge r1 = JStr (fallbackChallenges ! nat \<lfloor>r1 * 3\<rfloor>)"
      using \<open>0 \<le> \<lfloor>r1 * 3\<rfloor>\<close> \<open>\<lfloor>r1 * 3\<rfloor> < 3\<close>
      by (simp add: randomChallenge_def fallbackChallenges_def)
    ultimately show "randomChallenge r1 \<in> JStr ` set fallbackChallenges" by simp
  qed
  then show ?thesis by (simp add: getFallbackInsight_def)
qed

theorem fallback_fixed_fields_witness:
  "challengeIdentified (getFallbackInsight (1/2) emptyInsightRequest) \<in> JStr ` set fallbackChallenges
   \<and> confidence (getFallbackInsight (1/2) emptyInsightRequest) = Some 70"
  using fallback_fixed_fields [of "1/2" emptyInsightRequest "1/2"] by simp

text \<open>
  Claim C10 as stated fails in its last part: the AI path does yield an overall score of
  0, for a payload that reports a negative score, which is clamped up to 0.
\<close>

theorem final_score_negative_counterexample:
  "map_sum message ai_overallScore (generateFinalAssessment envNegative emptyFinalRequest)
     = Inr (Some 0)"
  by (simp add: generateFinalAssessment_def generateFinalAssessment_try_def callClaudeAPI_def
      envNegative_def parseFinalAssessmentResponse_def parseFinalAssessmentResponse_try_def
      payloadNegative_def getProp_def clampOr_def js_or_def)

text \<open>
  Claim C10, as amended. When the payload of the final assessment parses and reports the
  overall score 0, \<^verbatim>\<open>generateFinalAssessment\<close> returns the overall score 70: the zero
  is replaced by the default before clamping. For a numeric reported score the AI path
  yields the overall score 0 exactly when the reported score is negative.
\<close>

theorem final_score_zero_replaced:
  assumes "isConfigured env" and "apiReply env = Text (Parsed parsed)"
    and "getProp parsed ''overallScore'' = JNum c"
  shows "\<exists>a. generateFinalAssessment env request = Inr a
            \<and> (c = 0 \<longrightarrow> ai_overallScore a = Some 70)
            \<and> (ai_overallScore a = Some 0 \<longleftrightarrow> c < 0)"
  using assms
  by (auto simp add: generateFinalAssessment_def generateFinalAssessment_try_def callClaudeAPI_def
      parseFinalAssessmentResponse_def parseFinalAssessmentResponse_try_def clampOr_def js_or_def)

theorem final_score_zero_replaced_witness:
  "map_sum message ai_overallScore (generateFinalAssessment envZero emptyFinalRequest)
     = Inr (Some 70)"
proof -
  have a: "isConfigured envZero" "apiReply envZero = Text (Parsed payloadZero)"
    by (simp_all add: envZero_def)
  have b: "getProp payloadZero ''overallScore'' = JNum 0"
    by (simp add: payloadZero_def getProp_def)
  show ?thesis
    using final_score_zero_replaced [OF a b, of emptyFinalRequest] by auto
qed

section \<open>Properties of CircuitBreaker.execute\<close>

lemma afterProbe_eq:
  "afterProbe ''ai-insight'' =
     Some \<lparr>state = HalfOpen, failureCount = 0, lastFailureTime = 5, successCount = 1\<rparr>"
  by (simp add: afterProbe_def probeCalls_def execute_def defaultOptions_def initialCircuit_def
      failing_def Let_def)

text \<open>
  Claim C5 at a failing input. Under the default options (thresholds 5 and 3, timeout
  60000) the key has failed five times, and a call after the timeout has succeeded, so
  the circuit is half-open with one success. The next call is invoked and fails, and the
  circuit is still half-open afterwards: the failure has not reopened it.
\<close>

theorem halfopen_failure_not_reopened:
  "state (circuitOf afterProbe ''ai-insight'') = HalfOpen
   \<and> invoked (execute ''ai-insight'' failing 70001 70002 defaultOptions afterProbe)
   \<and> state (circuitOf (states (execute ''ai-insight'' failing 70001 70002 defaultOptions afterProbe))
        ''ai-insight'') = HalfOpen"
  by (simp add: circuitOf_def afterProbe_eq execute_def defaultOptions_def failing_def Let_def)

text \<open>
  The parts of the claim that the code does satisfy. A call on an open circuit within
  the recovery timeout fails at once and does not invoke the operation; an invoked
  failure counts, and opens the circuit when the count reaches the threshold, so that
  after \<open>failureThreshold\<close> consecutive failures the circuit is open with the time of the
  last failure; the first probe after the timeout reopens the circuit when it fails;
  and successes in the half-open state close the circuit once \<open>successThreshold\<close> is
  reached.
\<close>

lemma open_circuit_fails_fast:
  assumes "state (circuitOf sts key) = Open"
    and "now - lastFailureTime (circuitOf sts key) \<le> recoveryTimeout options"
  shows "execute key operation now failedAt options sts =
           \<lparr>result = Inl circuitOpenError, invoked = False, states = sts\<rparr>"
  using assms by (simp add: execute_def circuitOf_def)

lemma failure_counts:
  assumes "isl operation" and "invoked (execute key operation now failedAt options sts)"
  shows "failureCount (circuitOf (states (execute key operation now failedAt options sts)) key)
           = failureCount (circuitOf sts key) + 1
       \<and> lastFailureTime (circuitOf (states (execute key operation now failedAt options sts)) key)
           = failedAt
       \<and> (failureThreshold options \<le> failureCount (circuitOf sts key) + 1 \<longrightarrow>
            state (circuitOf (states (execute key operation now failedAt options sts)) key) = Open)"
  using assms
  by (cases operation)
     (auto simp add: execute_def circuitOf_def Let_def split: option.splits if_splits)

lemma success_resets:
  assumes "\<not> isl operation" and "invoked (execute key operation now failedAt options sts)"
  shows "failureCount (circuitOf (states (execute key operation now failedAt options sts)) key) = 0"
  using assms
  by (cases operation)
     (auto simp add: execute_def circuitOf_def Let_def split: option.splits if_splits)

lemma halfopen_success_closes:
  assumes "\<not> isl operation" and "sts key = Some s" and "state s = HalfOpen"
    and "successThreshold options \<le> successCount s + 1"
  shows "state (circuitOf (states (execute key operation now failedAt options sts)) key) = Closed"
  using assms by (cases operation) (simp_all add: execute_def circuitOf_def Let_def)

lemma halfopen_first_probe_failure_reopens:
  assumes "isl operation" and "sts key = Some s" and "state s = Open"
    and "failureThreshold options \<le> failureCount s + 1"
    and "now - lastFailureTime s > recoveryTimeout options"
  shows "invoked (execute key operation now failedAt options sts)
       \<and> state (circuitOf (states (execute key operation now failedAt options sts)) key) = Open"
  using assms by (cases operation) (simp_all add: execute_def circuitOf_def Let_def)

lemma consecutive_failures_open:
  assumes "invokedFailures key options cs sts" and "cs \<noteq> []"
    and "failureThreshold options \<le> failureCount (circuitOf sts key) + int (length cs)"
  shows "state (circuitOf (executeAll key options cs sts) key) = Open
       \<and> lastFailureTime (circuitOf (executeAll key options cs sts) key) = snd (snd (last cs))"
  using assms
proof (induction cs arbitrary: sts)
  case Nil
  then show ?case by simp
next
  case (Cons c rest)
  obtain now operation failedAt where c: "c = (now, operation, failedAt)" by (cases c)
  let ?sts = "states (execute key operation now failedAt options sts)"
  have isl: "isl operation"
    and inv: "invoked (execute key operation now failedAt options sts)"
    and rest: "invokedFailures key options rest ?sts"
    using Cons.prems(1) c by simp_all
  note fc = failure_counts [OF isl inv]
  show ?case
  proof (cases "rest = []")
    case True
    then show ?thesis using fc Cons.prems(3) c by simp
  next
    case False
    have "failureThreshold options \<le> failureCount (circuitOf ?sts key) + int (length rest)"
      using fc Cons.prems(3) by simp
    from Cons.IH [OF rest False this] show ?thesis using c False by simp
  qed
qed

lemma halfopen_successes_close:
  assumes "allSucceed cs" and "sts key = Some s" and "state s \<noteq> Open"
    and "state s = HalfOpen \<longrightarrow>
           cs \<noteq> [] \<and> successThreshold options \<le> successCount s + int (length cs)"
  shows "state (circuitOf (executeAll key options cs sts) key) = Closed"
  using assms
proof (induction cs arbitrary: sts s)
  case Nil
  then show ?case by (cases "state s") (simp_all add: circuitOf_def)
next
  case (Cons c rest)
  obtain now operation failedAt where c: "c = (now, operation, failedAt)" by (cases c)
  from Cons.prems(1) c obtain v where v: "operation = Inr v"
    by (cases operation) (simp_all add: allSucceed_def)
  have rest: "allSucceed rest" using Cons.prems(1) by (simp add: allSucceed_def)
  let ?sts = "states (execute key operation now failedAt options sts)"
  show ?case
  proof (cases "state s = HalfOpen \<and> \<not> successThreshold options \<le> successCount s + 1")
    case True
    let ?s = "s\<lparr>failureCount := 0, successCount := successCount s + 1\<rparr>"
    have l: "?sts key = Some ?s"
      using True Cons.prems(2) v by (simp add: execute_def Let_def)
    have n: "state ?s \<noteq> Open" using True by simp
    have h: "state ?s = HalfOpen \<longrightarrow>
        rest \<noteq> [] \<and> successThreshold options \<le> successCount ?s + int (length rest)"
      using True Cons.prems(4) by auto
    from Cons.IH [of ?sts ?s, OF rest l n h] show ?thesis using c by simp
  next
    case False
    let ?s = "s\<lparr>failureCount := 0, successCount := successCount s + 1, state := Closed\<rparr>"
    have l: "?sts key = Some ?s"
      using False Cons.prems(2,3) v by (cases "state s") (simp_all add: execute_def Let_def)
    have n: "state ?s \<noteq> Open" by simp
    have h: "state ?s = HalfOpen \<longrightarrow>
        rest \<noteq> [] \<and> successThreshold options \<le> successCount ?s + int (length rest)"
      by simp
    from Cons.IH [of ?sts ?s, OF rest l n h] show ?thesis using c by simp
  qed
qed

section \<open>Properties of AssessmentServiceLite\<close>

lemma generateFinalAssessment_fallback:
  assumes "isConfigured env \<longrightarrow> replyFails (apiReply env)"
  shows "generateFinalAssessment env request = Inr (getFallbackAssessment request)"
proof (cases "isConfigured env")
  case False
  then show ?thesis by (simp add: generateFinalAssessment_def)
next
  case True
  with assms have "replyFails (apiReply env)" by simp
  then have "\<exists>e. callClaudeAPI env = Inl e"
    by (cases "apiReply env") (simp_all add: callClaudeAPI_def)
  then show ?thesis
    by (auto simp add: generateFinalAssessment_def generateFinalAssessment_try_def)
qed

lemma fallback_lead:
  "determineLeadPriority \<lparr>level = JStr ''Competent'', score = Some 70\<rparr>
     (ai_challenges (getFallbackAssessment request)) = Inr ''medium''"
  by (simp add: determineLeadPriority_def getFallbackAssessment_def getProp_def)

lemma generateFinalResults_fallback:
  assumes "isConfigured env \<longrightarrow> replyFails (apiReply env)"
  shows "\<exists>res. generateFinalResults env assessmentData = Inr res
           \<and> overallScore res = Some 70
           \<and> level (performanceLevel res) = JStr ''Competent''
           \<and> roiMultiplier res = Some 3"
proof -
  have lead: "determineLeadPriority \<lparr>level = JStr ''Competent'', score = Some 70\<rparr>
     (JArr [JObj [(''name'', JStr ''Technical Translation Challenge''),
               (''description'', JStr ''Difficulty translating technical capabilities into business value''),
               (''priority'', JStr ''high''),
               (''impact'', JNum 7),
               (''businessConsequence'', JStr ''Heavy discounting to win customers'')]]) = Inr ''medium''"
    using fallback_lead by (simp add: getFallbackAssessment_def)
  show ?thesis
    unfolding generateFinalResults_def generateFinalAssessment_fallback [OF assms]
    by (simp add: getFallbackAssessment_def Let_def lead)
qed

text \<open>
  Claim C2. For a session that holds at least 12 responses, when the call of the AI
  endpoint fails (or the service is not configured, so that no call is made),
  \<^verbatim>\<open>completeAssessment\<close> succeeds: it returns results with the overall score 70, the
  performance level Competent and an ROI multiplier of at least 2 (it is 3), and the
  session ends with the status \<^verbatim>\<open>completed\<close>.
\<close>

theorem completeAssessment_outage:
  assumes "sessions sid = Some sess" and "12 \<le> length (responses sess)"
    and "isConfigured (claude env) \<longrightarrow> replyFails (apiReply (claude env))"
  shows "\<exists>res ended.
           fst (completeAssessment env sid sessions)
             = \<lparr>success = True, error = None, results = Some res\<rparr>
         \<and> overallScore res = Some 70
         \<and> level (performanceLevel res) = JStr ''Competent''
         \<and> (\<exists>q. roiMultiplier res = Some q \<and> 2 \<le> q)
         \<and> snd (completeAssessment env sid sessions) sid = Some ended
         \<and> status ended = completed"
proof -
  obtain res where res: "generateFinalResults (claude env)
        \<lparr>ad_sessionId = sessionId sess, ad_responses = responses sess,
         ad_insights = insights sess, ad_userInfo = userInfo sess\<rparr> = Inr res"
      "overallScore res = Some 70" "level (performanceLevel res) = JStr ''Competent''"
      "roiMultiplier res = Some 3"
    using generateFinalResults_fallback [OF assms(3)] by blast
  have len: "\<not> length (responses sess) < 12" using assms(2) by simp
  obtain u where u: "updateAssessmentStatus (dbReply env) = Inr u"
    by (cases "dbReply env") (simp_all add: updateAssessmentStatus_def)
  show ?thesis
    using assms(1) len res u by (simp add: completeAssessment_def Let_def)
qed

theorem completeAssessment_outage_witness:
  "\<exists>res ended.
           fst (completeAssessment envOk ''session_a'' sessions12)
             = \<lparr>success = True, error = None, results = Some res\<rparr>
         \<and> overallScore res = Some 70
         \<and> snd (completeAssessment envOk ''session_a'' sessions12) ''session_a'' = Some ended
         \<and> status ended = completed"
proof -
  have a: "sessions12 ''session_a'' = Some session12" by (simp add: sessions12_def)
  have b: "12 \<le> length (responses session12)" by (simp add: session12_def)
  have c: "isConfigured (claude envOk) \<longrightarrow> replyFails (apiReply (claude envOk))"
    by (simp add: envOk_def claudeOutage_def)
  show ?thesis
    using a b c
      completeAssessment_outage [of sessions12 "''session_a''" session12 envOk]
    by blast
qed


lemma analyzeBatch1_number: "analyzeBatch1 env now b = Inr i \<Longrightarrow> batchNumber i = 1"
  by (auto simp add: analyzeBatch1_def split: sum.splits)

lemma analyzeBatch2_number: "analyzeBatch2 env now b = Inr i \<Longrightarrow> batchNumber i = 2"
  by (auto simp add: analyzeBatch2_def split: sum.splits)

lemma analyzeBatch3_number: "analyzeBatch3 env now b = Inr i \<Longrightarrow> batchNumber i = 3"
  by (auto simp add: analyzeBatch3_def split: sum.splits)

lemma session_generateInsight_responses:
  "responses (fst (session_generateInsight env sess n q)) = responses sess"
  by (simp add: session_generateInsight_def Let_def split: sum.splits)

lemma session_generateInsight_insights:
  assumes "n \<in> {1, 2, 3}"
  shows "insights (fst (session_generateInsight env sess n q)) = insights sess
       \<or> (\<exists>i. batchNumber i = n
             \<and> insights (fst (session_generateInsight env sess n q)) = insights sess @ [i])"
  using assms
  by (auto simp add: session_generateInsight_def Let_def
      dest: analyzeBatch1_number analyzeBatch2_number analyzeBatch3_number split: sum.splits)

lemma session_generateInsight_inv:
  assumes inv: "sessionInv sess" and n: "n \<in> {1, 2, 3}"
    and fresh: "\<not> list_ex (\<lambda>i. batchNumber i = n) (insights sess)"
    and due: "milestone n \<le> length (responses sess)"
  shows "sessionInv (fst (session_generateInsight env sess n q))"
proof -
  let ?s = "fst (session_generateInsight env sess n q)"
  have r: "responses ?s = responses sess" by (rule session_generateInsight_responses)
  from session_generateInsight_insights [OF n, of env sess q]
  show ?thesis
  proof
    assume "insights ?s = insights sess"
    with inv r show ?thesis by (simp add: sessionInv_def)
  next
    assume "\<exists>i. batchNumber i = n \<and> insights ?s = insights sess @ [i]"
    then obtain i where i: "batchNumber i = n" "insights ?s = insights sess @ [i]" by blast
    have "n \<notin> batchNumber ` set (insights sess)"
      using fresh by (auto simp add: list_ex_iff)
    with inv r i n due show ?thesis by (auto simp add: sessionInv_def)
  qed
qed

lemma checkForInsightGeneration_inv:
  assumes "sessionInv sess"
  shows "sessionInv (fst (checkForInsightGeneration env sess))"
  using assms
  by (auto simp add: checkForInsightGeneration_def Let_def milestone_def
      intro!: session_generateInsight_inv)

lemma push_inv:
  assumes "sessionInv sess"
  shows "sessionInv (sess\<lparr>responses := responses sess @ [resp]\<rparr>)"
  using assms by (auto simp add: sessionInv_def)

lemma addResponse_inv:
  assumes "allInv sessions"
  shows "allInv (fst (snd (addResponse env sid resp sessions)))"
proof (cases "sessions sid")
  case None
  with assms show ?thesis by (simp add: addResponse_def)
next
  case (Some sess)
  then have "sessionInv sess" using assms by (simp add: allInv_def)
  then have p: "sessionInv (sess\<lparr>responses := responses sess @ [resp]\<rparr>)" by (rule push_inv)
  then have c: "sessionInv (fst (checkForInsightGeneration env (sess\<lparr>responses := responses sess @ [resp]\<rparr>)))"
    by (rule checkForInsightGeneration_inv)
  show ?thesis
    using Some assms p c
    by (cases "persistRaises env") (auto simp add: addResponse_def allInv_def Let_def)
qed

lemma startAssessment_inv:
  assumes "allInv sessions"
  shows "allInv (snd (startAssessment env info sessions))"
  using assms
  by (cases "persistRaises env") (auto simp add: startAssessment_def allInv_def Let_def sessionInv_def)

lemma completeAssessment_inv:
  assumes "allInv sessions"
  shows "allInv (snd (completeAssessment env sid sessions))"
proof (cases "sessions sid")
  case None
  with assms show ?thesis by (simp add: completeAssessment_def)
next
  case (Some sess)
  then have "sessionInv sess" using assms by (simp add: allInv_def)
  then have "sessionInv (sess\<lparr>status := completed, completedAt := Some (nowIso env)\<rparr>)"
    by (simp add: sessionInv_def)
  then show ?thesis
    using Some assms
    by (auto simp add: completeAssessment_def allInv_def Let_def split: sum.splits)
qed

lemma reachable_allInv: "reachable sessions \<Longrightarrow> allInv sessions"
proof (induction rule: reachable.induct)
  case initial
  show ?case by (simp add: allInv_def)
next
  case (started sessions env info)
  then show ?case by (simp add: startAssessment_inv)
next
  case (added sessions env sid resp)
  then show ?case by (simp add: addResponse_inv)
next
  case (finished sessions env sid)
  then show ?case by (simp add: completeAssessment_inv)
qed

lemma distinct_batches_le3:
  assumes "distinct (ns :: nat list)" and "set ns \<subseteq> {1, 2, 3}"
  shows "length ns \<le> 3"
proof -
  have "length ns = card (set ns)" using assms(1) by (simp add: distinct_card)
  also have "\<dots> \<le> card {1, 2, 3 :: nat}" using assms(2) by (intro card_mono) simp_all
  also have "\<dots> = 3" by simp
  finally show ?thesis .
qed

text \<open>
  Claim C3. In every session that a sequence of \<^verbatim>\<open>startAssessment\<close>, \<^verbatim>\<open>addResponse\<close>
  and \<^verbatim>\<open>completeAssessment\<close> reaches, there are at most 3 insights and no two of them
  share a batch number.
\<close>

theorem insights_unique_per_batch:
  assumes "reachable sessions" and "sessions sid = Some sess"
  shows "length (insights sess) \<le> 3 \<and> distinct (map batchNumber (insights sess))"
proof -
  have inv: "sessionInv sess"
    using reachable_allInv [OF assms(1)] assms(2) by (simp add: allInv_def)
  then have d: "distinct (map batchNumber (insights sess))" by (simp add: sessionInv_def)
  have "set (map batchNumber (insights sess)) \<subseteq> {1, 2, 3}"
    using inv by (auto simp add: sessionInv_def)
  with d have "length (map batchNumber (insights sess)) \<le> 3" by (rule distinct_batches_le3)
  with d show ?thesis by simp
qed

lemma reachable_addAll: "reachable sessions \<Longrightarrow> reachable (addAll env sid rs sessions)"
  by (induction rs arbitrary: sessions) (simp_all add: reachable.added)

lemma reachable_sessions0: "reachable sessions0"
  unfolding sessions0_def by (rule reachable.started) (rule reachable.initial)

text \<open>
  What the milestone check does once it is reached. For every session that the
  operations reach, an \<^verbatim>\<open>addResponse\<close> whose persistence write returns calls the insight
  engine exactly when the new response count is 4, 9 or 12, with the batch number 1, 2
  or 3 and the responses [0:4], [4:9] or [9:12], and does not call it at any other
  count: on a reachable session the guard against a second insight never blocks.
\<close>

lemma addResponse_batches:
  assumes "reachable sessions" and "sessions sid = Some sess" and "persistRaises env = None"
  shows "batchesOf (snd (snd (addResponse env sid resp sessions)))
           = expectedBatch (responses sess @ [resp])"
proof -
  have inv: "sessionInv sess"
    using reachable_allInv [OF assms(1)] assms(2) by (simp add: allInv_def)
  then have due: "\<forall>i \<in> set (insights sess). milestone (batchNumber i) \<le> length (responses sess)"
    by (simp add: sessionInv_def)
  have f1: "length (responses sess) = 3 \<Longrightarrow> \<not> list_ex (\<lambda>i. batchNumber i = 1) (insights sess)"
    using due by (auto simp add: list_ex_iff milestone_def)
  have f2: "length (responses sess) = 8 \<Longrightarrow> \<not> list_ex (\<lambda>i. batchNumber i = 2) (insights sess)"
    using due by (auto simp add: list_ex_iff milestone_def)
  have f3: "length (responses sess) = 11 \<Longrightarrow> \<not> list_ex (\<lambda>i. batchNumber i = 3) (insights sess)"
    using due by (auto simp add: list_ex_iff milestone_def)
  show ?thesis
    using assms(2,3) f1 f2 f3
    by (auto simp add: addResponse_def checkForInsightGeneration_def Let_def
        session_generateInsight_def batchesOf_def expectedBatch_def)
qed


lemma sessions3_lookup: "sessions3 ''session_a'' = Some session3"
  by (simp add: sessions3_def sessions0_def startAssessment_def addResponse_def
      checkForInsightGeneration_def envOk_def Let_def session3_def)

lemma reachable_sessions3: "reachable sessions3"
  unfolding sessions3_def by (rule reachable_addAll) (rule reachable_sessions0)

lemma reachable_sessions4: "reachable sessions4"
  unfolding sessions4_def by (rule reachable_addAll) (rule reachable_sessions0)

lemma addResponse_batches_example:
  "batchesOf (snd (snd (addResponse envOk ''session_a'' scaleResponse sessions3)))
     = [(1, [scaleResponse, scaleResponse, scaleResponse, scaleResponse])]"
proof -
  have p: "persistRaises envOk = None" by (simp add: envOk_def)
  show ?thesis
    using addResponse_batches [OF reachable_sessions3 sessions3_lookup p, of scaleResponse]
    by (simp add: expectedBatch_def slice_def session3_def)
qed

text \<open>
  Claim C4 at its failing input. \<^verbatim>\<open>addResponse\<close> awaits
  \<^verbatim>\<open>supabaseAssessmentService.storeAssessmentResponse\<close> between the push and the
  milestone check, inside one \<^verbatim>\<open>try\<close>. When that call raises, as the call of a method
  that no class defines does, \<^verbatim>\<open>addResponse\<close> replies with the failure, the response
  stays in the session, and the insight engine is not called, at whatever response count.
\<close>

theorem addResponse_persist_raises:
  assumes "sessions sid = Some sess" and "persistRaises env = Some e"
  shows "addResponse env sid resp sessions =
           (\<lparr>success = False, error = Some (message e)\<rparr>,
            sessions(sid \<mapsto> sess\<lparr>responses := responses sess @ [resp]\<rparr>),
            [])"
  using assms by (simp add: addResponse_def Let_def)

lemma addAll_persist_raises:
  assumes "persistRaises env = Some e"
  shows "sessions sid = Some sess \<Longrightarrow>
           addAll env sid rs sessions
             = sessions(sid \<mapsto> sess\<lparr>responses := responses sess @ rs\<rparr>)"
proof (induction rs arbitrary: sessions sess)
  case Nil
  then show ?case by (simp add: fun_upd_idem)
next
  case (Cons r rs)
  let ?sess = "sess\<lparr>responses := responses sess @ [r]\<rparr>"
  let ?sessions = "sessions(sid \<mapsto> ?sess)"
  have step: "fst (snd (addResponse env sid r sessions)) = ?sessions"
    using Cons.prems assms by (simp add: addResponse_def Let_def)
  have "?sessions sid = Some ?sess" by simp
  then have ih: "addAll env sid rs ?sessions
      = ?sessions(sid \<mapsto> ?sess\<lparr>responses := responses ?sess @ rs\<rparr>)"
    by (rule Cons.IH)
  have "addAll env sid (r # rs) sessions = addAll env sid rs ?sessions"
    by (simp only: addAll.simps step)
  also have "\<dots> = ?sessions(sid \<mapsto> ?sess\<lparr>responses := responses ?sess @ rs\<rparr>)"
    by (rule ih)
  also have "\<dots> = sessions(sid \<mapsto> sess\<lparr>responses := responses sess @ r # rs\<rparr>)"
    by simp
  finally show ?case .
qed

lemma reachable_sessionsRaised: "reachable sessionsRaised"
  unfolding sessionsRaised_def
  by (rule reachable_addAll) (rule reachable.started, rule reachable.initial)

lemma sessionsRaised_lookup: "sessionsRaised ''session_a'' = Some session3"
  by (simp add: sessionsRaised_def startAssessment_def addResponse_def envRaise_def
      envStartRaise_def envOk_def Let_def session3_def)

theorem addResponse_persist_raises_witness:
  "reachable sessionsRaised
   \<and> addResponse envRaise ''session_a'' scaleResponse sessionsRaised =
        (\<lparr>success = False,
          error = Some ''supabaseAssessmentService.storeAssessmentResponse is not a function''\<rparr>,
         sessionsRaised(''session_a'' \<mapsto> session3\<lparr>responses :=
           [scaleResponse, scaleResponse, scaleResponse, scaleResponse]\<rparr>),
         [])
   \<and> expectedBatch [scaleResponse, scaleResponse, scaleResponse, scaleResponse]
        = [(1, [scaleResponse, scaleResponse, scaleResponse, scaleResponse])]"
proof -
  have p: "persistRaises envRaise =
      Some (JsError TypeError ''supabaseAssessmentService.storeAssessmentResponse is not a function'')"
    by (simp add: envRaise_def envOk_def)
  show ?thesis
    using reachable_sessionsRaised sessionsRaised_lookup p
      addResponse_persist_raises
        [of sessionsRaised "''session_a''" session3 envRaise
            "JsError TypeError ''supabaseAssessmentService.storeAssessmentResponse is not a function''"
            scaleResponse]
    by (simp add: session3_def expectedBatch_def slice_def)
qed

lemma sessions4_batches:
  "map_option (map batchNumber \<circ> insights) (sessions4 ''session_a'') = Some [1]"
  by (simp add: sessions4_def sessions0_def startAssessment_def addResponse_def
      checkForInsightGeneration_def session_generateInsight_def analyzeBatch1_def
      generateInsight_def generateInsight_try_def callClaudeAPI_def claudeOutage_def
      envOk_def Let_def)

theorem insights_unique_per_batch_witness:
  "\<exists>sess. sessions4 ''session_a'' = Some sess
      \<and> map batchNumber (insights sess) = [1]
      \<and> length (insights sess) \<le> 3 \<and> distinct (map batchNumber (insights sess))"
proof -
  obtain sess where s: "sessions4 ''session_a'' = Some sess" "map batchNumber (insights sess) = [1]"
    using sessions4_batches by (cases "sessions4 ''session_a''") auto
  show ?thesis
    using s insights_unique_per_batch [OF reachable_sessions4 s(1)] by simp
qed


end
